theory Spec2Isabelle
  imports Complex_Main "HOL-Library.Word" "HOL-Library.Char_ord" "HOL-Library.List_Lexorder"
begin

section \<open>The storage engine of the file vault\<close>

text \<open>
  A shallow embedding of the three classes of the storage module:
  \<^verbatim>\<open>StorageManager\<close>, \<^verbatim>\<open>IndexedDBBackend\<close> and \<^verbatim>\<open>LocalStorageBackend\<close>.
  Every \<^verbatim>\<open>async\<close> method becomes a function returning the outcome of its promise;
  the two browser stores are explicit state, passed in and returned; everything the
  browser decides (the generated id, the clock, what the canvas produces, whether a
  write hits the quota) is read from a \<open>host\<close> record.
\<close>

subsection \<open>Values, files, errors and promises\<close>

type_synonym byte = "8 word"

text \<open>
  A \<^verbatim>\<open>File\<close>: its name, its MIME type and its bytes. \<^verbatim>\<open>file.size\<close> is the number of
  bytes of the file.
\<close>

record jsfile =
  name :: string
  ftype :: string
  content :: "byte list"

definition fsize :: "jsfile \<Rightarrow> nat" where
  "fsize file = length (content file)"

datatype js_error = Error string | TypeError | ReaderError

text \<open>
  The outcome of awaiting a promise: it resolves, it rejects, or it never settles
  (\<open>Pending\<close>).
\<close>

datatype 'a promise = Resolved 'a | Rejected js_error | Pending

fun is_Rejected :: "'a promise \<Rightarrow> bool" where
  "is_Rejected (Rejected e) = True"
| "is_Rejected (Resolved v) = False"
| "is_Rejected Pending = False"

text \<open>\<^verbatim>\<open>s.startsWith(p)\<close> and \<^verbatim>\<open>s.includes(p)\<close>.\<close>

fun startsWith :: "string \<Rightarrow> string \<Rightarrow> bool" where
  "startsWith s [] = True"
| "startsWith [] (p # ps) = False"
| "startsWith (c # cs) (p # ps) = (c = p \<and> startsWith cs ps)"

fun includes_str :: "string \<Rightarrow> string \<Rightarrow> bool" where
  "includes_str [] p = (p = [])"
| "includes_str (c # cs) p = (startsWith (c # cs) p \<or> includes_str cs p)"

text \<open>\<^verbatim>\<open>xs[i]\<close> on a JavaScript array: \<^verbatim>\<open>undefined\<close> (here \<open>None\<close>) out of range.\<close>

definition at_index :: "'a list \<Rightarrow> nat \<Rightarrow> 'a option" where
  "at_index xs i = (if i < length xs then Some (xs ! i) else None)"

text \<open>
  The metadata object that travels with a file. The keys the storage module itself
  reads or writes are fields; \<open>md_other\<close> holds every further key with its JSON text.
  \<open>None\<close> is an absent key. A further key is read with \<open>other_key\<close>: the first
  entry of a key counts, and an entry under the name of a field is not a key of the
  object.
\<close>

record analysis =
  an_filename :: "string option"
  an_mainType :: "string option"
  an_size :: "nat option"

record metadata =
  md_intelligentAnalysis :: "analysis option"
  md_jsonFormat :: "string option"
  md_description :: "string option"
  md_filename :: "string option"
  md_size :: "nat option"
  md_filetype :: "string option"
  md_originalSize :: "nat option"
  md_compressed :: "bool option"
  md_directory :: "string option"
  md_other :: "(string \<times> string) list"

definition field_keys :: "string list" where
  "field_keys = [''intelligentAnalysis'', ''jsonFormat'', ''description'', ''filename'', ''size'',
                 ''filetype'', ''originalSize'', ''compressed'', ''directory'']"

definition other_key :: "metadata \<Rightarrow> string \<Rightarrow> string option" where
  "other_key md k = (if k \<in> set field_keys then None else map_of (md_other md) k)"

text \<open>
  A property of an object built by spreading the metadata over a record: the record's
  own value, or the JSON text of the metadata's value under the same key, which
  replaces it.
\<close>

datatype 'a slot = Own 'a | Replaced string

definition spread_over :: "'a \<Rightarrow> metadata \<Rightarrow> string \<Rightarrow> 'a slot" where
  "spread_over v md k = (case other_key md k of None \<Rightarrow> Own v | Some t \<Rightarrow> Replaced t)"

subsection \<open>The host\<close>

text \<open>
  What \<^verbatim>\<open>canvas.toBlob\<close> hands to its callback (a blob or \<^verbatim>\<open>null\<close>), or the image
  failing to load.
\<close>

datatype canvas_outcome = LoadFailed | ToBlob "byte list option"

text \<open>Where a \<^verbatim>\<open>localStorage.setItem\<close> of a store operation hits the quota, if at all.\<close>

datatype ls_fault = NoFault | QuotaAtFiles | QuotaAtIndex

record storage_estimate =
  usage :: int
  quota :: int

record host =
  h_supportsIndexedDB :: bool
  h_indexedDB_opens :: bool
  h_supportsLocalStorage :: bool
  h_estimate :: "storage_estimate option"
  h_canvas :: canvas_outcome
  h_stamp :: string
  h_rand :: string
  h_now :: string
  h_read_fails :: bool
  h_idb_quota_exceeded :: bool
  h_idb_request_fails :: bool
  h_dom_message :: string
  h_ls_fault :: ls_fault

text \<open>
  \<open>h_estimate\<close> is the answer of \<^verbatim>\<open>navigator.storage.estimate()\<close>, \<open>None\<close> when the
  Storage API is missing or the call throws; \<open>h_stamp\<close> and \<open>h_rand\<close> are the digits of
  \<^verbatim>\<open>Date.now()\<close> and the random suffix of a generated id; \<open>h_now\<close> is
  \<^verbatim>\<open>new Date().toISOString()\<close>, read once per operation; \<open>h_dom_message\<close> is the message of the
  \<^verbatim>\<open>DOMException\<close> of a failed IndexedDB request.
\<close>

subsection \<open>Backends of the manager\<close>

datatype backend = IndexedDBBackend | LocalStorageBackend

text \<open>
  \<^verbatim>\<open>initializeBackends\<close>: the IndexedDB backend is pushed first when the browser has
  IndexedDB, then the localStorage backend. A failing \<^verbatim>\<open>indexedDBBackend.init()\<close> throws
  out of the method before anything is pushed.
\<close>

definition initializeBackends :: "host \<Rightarrow> backend list" where
  "initializeBackends h =
     (if h_supportsIndexedDB h then
        (if h_indexedDB_opens h then
           [IndexedDBBackend] @ (if h_supportsLocalStorage h then [LocalStorageBackend] else [])
         else [])
      else (if h_supportsLocalStorage h then [LocalStorageBackend] else []))"

definition selectBackendForFile :: "backend list \<Rightarrow> jsfile \<Rightarrow> backend option" where
  "selectBackendForFile backends file =
     (if at_index backends 0 \<noteq> None then at_index backends 0
      else if at_index backends 1 \<noteq> None \<and> fsize file < 5 * 1024 * 1024 then at_index backends 1
      else (case at_index backends 0 of Some b \<Rightarrow> Some b | None \<Rightarrow> at_index backends 1))"

subsection \<open>Quota and admission\<close>

record quota_info =
  q_usage :: int
  q_quota :: int
  q_available :: int

text \<open>
  \<^verbatim>\<open>checkStorageQuota\<close>; \<open>None\<close> is its \<^verbatim>\<open>null\<close>. The \<^verbatim>\<open>percentUsed\<close> string of the result
  is only logged and is left out.
\<close>

definition checkStorageQuota :: "host \<Rightarrow> quota_info option" where
  "checkStorageQuota h =
     (case h_estimate h of
        None \<Rightarrow> None
      | Some estimate \<Rightarrow>
          Some \<lparr>q_usage = usage estimate, q_quota = quota estimate,
                q_available = quota estimate - usage estimate\<rparr>)"

text \<open>
  The reason of a refusal is the template
  \<^verbatim>\<open>Insufficient storage. File size: ..., Available: ...\<close>; the model keeps the two
  numbers it interpolates.
\<close>

datatype reason = InsufficientStorage int int

record admission =
  canStore :: bool
  reason :: "reason option"

definition canStoreFile :: "host \<Rightarrow> int \<Rightarrow> admission" where
  "canStoreFile h fileSize =
     (case checkStorageQuota h of
        None \<Rightarrow> \<lparr>canStore = True, reason = None\<rparr>
      | Some quotaInfo \<Rightarrow>
          (let safetyMargin = 10 * 1024 * 1024;
               requiredSpace = fileSize + safetyMargin
           in if q_available quotaInfo < requiredSpace
              then \<lparr>canStore = False,
                    reason = Some (InsufficientStorage fileSize (q_available quotaInfo))\<rparr>
              else \<lparr>canStore = True, reason = None\<rparr>))"

subsection \<open>Stored records\<close>

text \<open>
  An object store with \<^verbatim>\<open>keyPath: 'id'\<close> is the list of its records in ascending key
  order. \<^verbatim>\<open>add\<close> fails (\<open>None\<close>, a \<^verbatim>\<open>ConstraintError\<close>) when the key is taken;
  \<^verbatim>\<open>get\<close> of an absent key is \<^verbatim>\<open>undefined\<close>; \<^verbatim>\<open>delete\<close> of an absent key
  succeeds and changes nothing.
\<close>

definition store_add :: "('r \<Rightarrow> string) \<Rightarrow> 'r \<Rightarrow> 'r list \<Rightarrow> 'r list option" where
  "store_add key r rs =
     (if key r \<in> key ` set rs then None else Some (insort_key key r rs))"

definition store_get :: "('r \<Rightarrow> string) \<Rightarrow> string \<Rightarrow> 'r list \<Rightarrow> 'r option" where
  "store_get key k rs = find (\<lambda>r. key r = k) rs"

definition store_delete :: "('r \<Rightarrow> string) \<Rightarrow> string \<Rightarrow> 'r list \<Rightarrow> 'r list" where
  "store_delete key k rs = filter (\<lambda>r. key r \<noteq> k) rs"

text \<open>The payload as a backend keeps it: an \<^verbatim>\<open>ArrayBuffer\<close>, or a base64 data URL
  (its media type and the bytes it encodes).\<close>

datatype payload = ArrayBuffer "byte list" | DataURL string "byte list"

record blob =
  b_bytes :: "byte list"
  b_type :: string

text \<open>\<^verbatim>\<open>fileData\<close> and \<^verbatim>\<open>metadataRecord\<close> of \<^verbatim>\<open>IndexedDBBackend.storeFile\<close>.\<close>

record idb_file =
  f_id :: string
  f_filename :: string
  f_filetype :: string
  f_size :: nat
  f_category :: string
  f_uploadDate :: string
  f_username :: string
  f_data :: "byte list"

record idb_meta =
  m_id :: string
  m_username :: string
  m_metadata :: metadata
  m_category :: string
  m_uploadDate :: string

text \<open>The database \<^verbatim>\<open>DataBhandaarDB\<close> with its object stores \<^verbatim>\<open>files\<close> and \<^verbatim>\<open>metadata\<close>.\<close>

record idb =
  files_store :: "idb_file list"
  metadata_store :: "idb_meta list"

text \<open>\<^verbatim>\<open>fileData\<close> of \<^verbatim>\<open>LocalStorageBackend.storeFile\<close>, and an entry of the file index.\<close>

record ls_record =
  r_id :: string
  r_filename :: string
  r_filetype :: string
  r_size :: nat
  r_category :: string
  r_uploadDate :: string
  r_username :: string
  r_metadata :: metadata
  r_data :: payload

record index_entry =
  ix_username :: string
  ix_backend :: string

text \<open>
  The parsed items \<^verbatim>\<open>data_bhandaar_files\<close> (user name to the list of the user's
  records) and \<^verbatim>\<open>data_bhandaar_file_index\<close> (file id to index entry) of
  \<^verbatim>\<open>localStorage\<close>; a missing item reads as the empty object. User names and file ids
  are taken not to be names of properties that every object inherits.
\<close>

record local_storage =
  ls_files :: "string \<rightharpoonup> ls_record list"
  ls_index :: "string \<rightharpoonup> index_entry"

record world =
  w_idb :: idb
  w_ls :: local_storage

text \<open>What \<^verbatim>\<open>storeFile\<close> of a backend resolves with; only the localStorage backend
  includes the \<^verbatim>\<open>data\<close> property.\<close>

record stored_file =
  sf_id :: string
  sf_filename :: string
  sf_filetype :: string
  sf_size :: nat
  sf_category :: string
  sf_uploadDate :: string
  sf_username :: string
  sf_metadata :: metadata
  sf_data :: "payload option"
  sf_storage :: string

text \<open>An entry of \<^verbatim>\<open>getUserFiles\<close>.\<close>

record file_summary =
  s_id :: string
  s_filename :: string
  s_filetype :: string
  s_size :: nat
  s_category :: string
  s_uploadDate :: string
  s_username :: string
  s_metadata :: metadata

text \<open>
  What \<^verbatim>\<open>getFile\<close> of a backend resolves with. The localStorage backend returns the
  record with its \<^verbatim>\<open>metadata\<close> property (\<open>g_metadata\<close>); the IndexedDB backend
  returns \<^verbatim>\<open>{...fileData, ...metadata.metadata, url, blob}\<close>, where the keys of the
  metadata are spread into the top level (\<open>g_spread\<close>) and replace the properties
  of \<^verbatim>\<open>fileData\<close> of the same name: \<^verbatim>\<open>filename\<close>, \<^verbatim>\<open>size\<close> and \<^verbatim>\<open>filetype\<close> by the
  fields of the metadata when present, \<^verbatim>\<open>id\<close>, \<^verbatim>\<open>category\<close>, \<^verbatim>\<open>uploadDate\<close>,
  \<^verbatim>\<open>username\<close> and \<^verbatim>\<open>data\<close> by a further key of that name; a further key
  \<^verbatim>\<open>metadata\<close> becomes the property \<^verbatim>\<open>metadata\<close>. \<^verbatim>\<open>url\<close> and \<^verbatim>\<open>blob\<close> are set
  after the spread; \<open>g_url\<close> is the blob that the object URL resolves to.
\<close>

record fetched_file =
  g_id :: "string slot"
  g_filename :: string
  g_filetype :: string
  g_size :: nat
  g_category :: "string slot"
  g_uploadDate :: "string slot"
  g_username :: "string slot"
  g_data :: "payload slot"
  g_metadata :: "metadata slot option"
  g_spread :: "metadata option"
  g_url :: blob
  g_blob :: blob

text \<open>
  \<^verbatim>\<open>a || b || d\<close> on values that may be \<^verbatim>\<open>undefined\<close>: the empty string and the
  number 0 are falsy too.
\<close>

fun or_str :: "string option list \<Rightarrow> string \<Rightarrow> string" where
  "or_str [] d = d"
| "or_str (None # xs) d = or_str xs d"
| "or_str (Some s # xs) d = (if s \<noteq> [] then s else or_str xs d)"

fun or_num :: "nat option list \<Rightarrow> nat \<Rightarrow> nat" where
  "or_num [] d = d"
| "or_num (None # xs) d = or_num xs d"
| "or_num (Some n # xs) d = (if n \<noteq> 0 then n else or_num xs d)"

definition quota_message :: string where
  "quota_message = ''Storage quota exceeded. Please delete some files or try a smaller file.''"

subsection \<open>IndexedDBBackend\<close>

text \<open>
  A backend of the manager's list has been initialised, so \<^verbatim>\<open>this.db\<close> is the open
  database and the \<^verbatim>\<open>if (!this.db) await this.init()\<close> of every method is skipped.
  A transaction is taken to commit once its requests have succeeded; a failed request
  aborts the transaction, which leaves both stores as they were.
\<close>

definition idb_generateFileId :: "host \<Rightarrow> string" where
  "idb_generateFileId h = ''idb_'' @ h_stamp h @ ''_'' @ h_rand h"

definition idb_storeFile ::
  "host \<Rightarrow> idb \<Rightarrow> string \<Rightarrow> jsfile \<Rightarrow> string \<Rightarrow> metadata \<Rightarrow> stored_file promise \<times> idb" where
  "idb_storeFile h db username file category metadata =
     (if h_read_fails h then (Rejected ReaderError, db)
      else
        let fileArrayBuffer = content file;
            fileId = idb_generateFileId h;
            fileData = \<lparr>f_id = fileId, f_filename = name file, f_filetype = ftype file,
                        f_size = fsize file, f_category = category, f_uploadDate = h_now h,
                        f_username = username, f_data = fileArrayBuffer\<rparr>;
            metadataRecord = \<lparr>m_id = fileId, m_username = username,
                        m_metadata = metadata\<lparr>md_filename := Some (name file),
                                               md_size := Some (fsize file),
                                               md_filetype := Some (ftype file)\<rparr>,
                        m_category = category, m_uploadDate = h_now h\<rparr>
        in if h_idb_quota_exceeded h then (Rejected (Error quota_message), db)
           else
             (case store_add f_id fileData (files_store db) of
                None \<Rightarrow>
                  (Rejected (Error (''Failed to store file in IndexedDB: '' @ h_dom_message h)), db)
              | Some files' \<Rightarrow>
                  (case store_add m_id metadataRecord (metadata_store db) of
                     None \<Rightarrow>
                       (Rejected (Error (''Failed to store metadata in IndexedDB: ''
                                          @ h_dom_message h)), db)
                   | Some metas' \<Rightarrow>
                       (Resolved \<lparr>sf_id = fileId, sf_filename = name file,
                                  sf_filetype = ftype file, sf_size = fsize file,
                                  sf_category = category, sf_uploadDate = h_now h,
                                  sf_username = username, sf_metadata = metadata,
                                  sf_data = None, sf_storage = ''IndexedDB''\<rparr>,
                        db\<lparr>files_store := files', metadata_store := metas'\<rparr>))))"

definition idb_summary :: "idb_meta \<Rightarrow> file_summary" where
  "idb_summary item =
     \<lparr>s_id = m_id item,
      s_filename = or_str [Option.bind (md_intelligentAnalysis (m_metadata item)) an_filename,
                           md_filename (m_metadata item)] ''file'',
      s_filetype = or_str [Option.bind (md_intelligentAnalysis (m_metadata item)) an_mainType,
                           md_filetype (m_metadata item)] ''unknown'',
      s_size = or_num [Option.bind (md_intelligentAnalysis (m_metadata item)) an_size,
                       md_size (m_metadata item)] 0,
      s_category = m_category item,
      s_uploadDate = m_uploadDate item,
      s_username = m_username item,
      s_metadata = m_metadata item\<rparr>"

definition idb_getUserFiles :: "host \<Rightarrow> idb \<Rightarrow> string \<Rightarrow> file_summary list promise" where
  "idb_getUserFiles h db username =
     (if h_idb_request_fails h then Rejected (Error ''Failed to get user files from IndexedDB'')
      else Resolved (map idb_summary
                      (filter (\<lambda>item. m_username item = username) (metadata_store db))))"

text \<open>
  \<^verbatim>\<open>getFile\<close> reads \<^verbatim>\<open>metadata.metadata\<close> inside the success handler of the metadata
  request. When the file record exists and the metadata record does not, that is a
  \<^verbatim>\<open>TypeError\<close> thrown in an event handler: the promise is neither resolved nor
  rejected.
\<close>

definition idb_getFile :: "host \<Rightarrow> idb \<Rightarrow> string \<Rightarrow> fetched_file promise" where
  "idb_getFile h db fileId =
     (if h_idb_request_fails h then Rejected (Error ''Failed to get file from IndexedDB'')
      else
        (case store_get f_id fileId (files_store db) of
           None \<Rightarrow> Rejected (Error ''File not found in IndexedDB'')
         | Some fileData \<Rightarrow>
             (case store_get m_id fileId (metadata_store db) of
                None \<Rightarrow> Pending
              | Some metadata \<Rightarrow>
                  (let blob = \<lparr>b_bytes = f_data fileData, b_type = f_filetype fileData\<rparr>
                   in Resolved
                        \<lparr>g_id = spread_over (f_id fileData) (m_metadata metadata) ''id'',
                         g_filename = (case md_filename (m_metadata metadata) of
                                         Some n \<Rightarrow> n | None \<Rightarrow> f_filename fileData),
                         g_filetype = (case md_filetype (m_metadata metadata) of
                                         Some t \<Rightarrow> t | None \<Rightarrow> f_filetype fileData),
                         g_size = (case md_size (m_metadata metadata) of
                                     Some n \<Rightarrow> n | None \<Rightarrow> f_size fileData),
                         g_category =
                           spread_over (f_category fileData) (m_metadata metadata) ''category'',
                         g_uploadDate =
                           spread_over (f_uploadDate fileData) (m_metadata metadata) ''uploadDate'',
                         g_username =
                           spread_over (f_username fileData) (m_metadata metadata) ''username'',
                         g_data =
                           spread_over (ArrayBuffer (f_data fileData)) (m_metadata metadata) ''data'',
                         g_metadata =
                           map_option Replaced (other_key (m_metadata metadata) ''metadata''),
                         g_spread = Some (m_metadata metadata),
                         g_url = blob, g_blob = blob\<rparr>))))"

definition idb_deleteFile :: "host \<Rightarrow> idb \<Rightarrow> string \<Rightarrow> bool promise \<times> idb" where
  "idb_deleteFile h db fileId =
     (if h_idb_request_fails h then (Rejected (Error ''Failed to delete file from IndexedDB''), db)
      else (Resolved True,
            db\<lparr>files_store := store_delete f_id fileId (files_store db),
               metadata_store := store_delete m_id fileId (metadata_store db)\<rparr>))"

record backend_stats =
  st_type :: string
  st_fileCount :: nat
  st_totalSize :: nat
  st_maxSize :: nat

definition idb_getStats :: "host \<Rightarrow> idb \<Rightarrow> string \<Rightarrow> backend_stats promise" where
  "idb_getStats h db username =
     (case idb_getUserFiles h db username of
        Resolved files \<Rightarrow>
          Resolved \<lparr>st_type = ''indexedDB'', st_fileCount = length files,
                    st_totalSize = foldl (\<lambda>sum file. sum + s_size file) 0 files,
                    st_maxSize = 200 * 1024 * 1024 * 1024\<rparr>
      | Rejected e \<Rightarrow> Rejected e
      | Pending \<Rightarrow> Pending)"

subsection \<open>LocalStorageBackend\<close>

definition maxFileSize :: nat where
  "maxFileSize = 5 * 1024 * 1024"

definition ls_generateFileId :: "host \<Rightarrow> string" where
  "ls_generateFileId h = ''ls_'' @ h_stamp h @ ''_'' @ h_rand h"

text \<open>
  \<^verbatim>\<open>fileToBase64\<close>: \<^verbatim>\<open>readAsDataURL\<close> yields the data URL of the file's bytes, with
  the media type \<^verbatim>\<open>application/octet-stream\<close> for a file without a type.
\<close>

definition fileToBase64 :: "jsfile \<Rightarrow> payload" where
  "fileToBase64 file =
     DataURL (if ftype file = [] then ''application/octet-stream'' else ftype file) (content file)"

text \<open>
  \<^verbatim>\<open>saveToLocalStorage\<close> writes the two items one after the other; a quota error at
  the second \<^verbatim>\<open>setItem\<close> leaves the first written. The result is the error thrown,
  if any, and the storage.
\<close>

definition saveToLocalStorage ::
  "host \<Rightarrow> local_storage \<Rightarrow> string \<Rightarrow> ls_record \<Rightarrow> string \<Rightarrow> js_error option \<times> local_storage" where
  "saveToLocalStorage h ls fileId fileData username =
     (let files = ls_files ls;
          index = ls_index ls;
          files' = files(username \<mapsto>
                     (case files username of None \<Rightarrow> [] | Some userFiles \<Rightarrow> userFiles) @ [fileData]);
          index' = index(fileId \<mapsto> \<lparr>ix_username = username, ix_backend = ''localStorage''\<rparr>)
      in case h_ls_fault h of
           QuotaAtFiles \<Rightarrow> (Some (Error quota_message), ls)
         | QuotaAtIndex \<Rightarrow> (Some (Error quota_message), ls\<lparr>ls_files := files'\<rparr>)
         | NoFault \<Rightarrow> (None, ls\<lparr>ls_files := files', ls_index := index'\<rparr>))"

text \<open>
  The message of the size check interpolates \<^verbatim>\<open>formatFileSize(5 * 1024 * 1024)\<close>,
  which is \<^verbatim>\<open>5 MB\<close>.
\<close>

definition ls_storeFile ::
  "host \<Rightarrow> local_storage \<Rightarrow> string \<Rightarrow> jsfile \<Rightarrow> string \<Rightarrow> metadata
     \<Rightarrow> stored_file promise \<times> local_storage" where
  "ls_storeFile h ls username file category metadata =
     (if fsize file > maxFileSize
      then (Rejected (Error ''File too large for localStorage. Max: 5 MB''), ls)
      else if h_read_fails h then (Rejected ReaderError, ls)
      else
        let fileId = ls_generateFileId h;
            fileData = \<lparr>r_id = fileId, r_filename = name file, r_filetype = ftype file,
                        r_size = fsize file, r_category = category, r_uploadDate = h_now h,
                        r_username = username,
                        r_metadata = metadata\<lparr>md_filename := Some (name file),
                                               md_size := Some (fsize file),
                                               md_filetype := Some (ftype file)\<rparr>,
                        r_data = fileToBase64 file\<rparr>
        in (case saveToLocalStorage h ls fileId fileData username of
              (Some error, ls') \<Rightarrow> (Rejected error, ls')
            | (None, ls') \<Rightarrow>
                (Resolved \<lparr>sf_id = r_id fileData, sf_filename = r_filename fileData,
                           sf_filetype = r_filetype fileData, sf_size = r_size fileData,
                           sf_category = r_category fileData,
                           sf_uploadDate = r_uploadDate fileData,
                           sf_username = r_username fileData,
                           sf_metadata = r_metadata fileData,
                           sf_data = Some (r_data fileData),
                           sf_storage = ''LocalStorage''\<rparr>, ls')))"

definition ls_summary :: "ls_record \<Rightarrow> file_summary" where
  "ls_summary file =
     \<lparr>s_id = r_id file,
      s_filename = or_str [Option.bind (md_intelligentAnalysis (r_metadata file)) an_filename,
                           md_filename (r_metadata file), Some (r_filename file)] ''file'',
      s_filetype = or_str [Option.bind (md_intelligentAnalysis (r_metadata file)) an_mainType,
                           md_filetype (r_metadata file), Some (r_filetype file)] ''unknown'',
      s_size = or_num [Option.bind (md_intelligentAnalysis (r_metadata file)) an_size,
                       md_size (r_metadata file), Some (r_size file)] 0,
      s_category = r_category file,
      s_uploadDate = r_uploadDate file,
      s_username = r_username file,
      s_metadata = r_metadata file\<rparr>"

definition ls_getUserFiles :: "local_storage \<Rightarrow> string \<Rightarrow> file_summary list promise" where
  "ls_getUserFiles ls username =
     (let userFiles = (case ls_files ls username of None \<Rightarrow> [] | Some fs \<Rightarrow> fs)
      in Resolved (map ls_summary userFiles))"

text \<open>
  \<^verbatim>\<open>fetch\<close> of the data URL gives back the bytes it encodes, with its media type.
  \<^verbatim>\<open>userFiles.find\<close> on a user without a list is a \<^verbatim>\<open>TypeError\<close>.
\<close>

definition data_blob :: "payload \<Rightarrow> blob" where
  "data_blob d = (case d of DataURL t bs \<Rightarrow> \<lparr>b_bytes = bs, b_type = t\<rparr>
                          | ArrayBuffer bs \<Rightarrow> \<lparr>b_bytes = bs, b_type = []\<rparr>)"

definition ls_getFile :: "local_storage \<Rightarrow> string \<Rightarrow> fetched_file promise" where
  "ls_getFile ls fileId =
     (case ls_index ls fileId of
        None \<Rightarrow> Rejected (Error ''File not found in localStorage'')
      | Some fileInfo \<Rightarrow>
          if ix_backend fileInfo \<noteq> ''localStorage''
          then Rejected (Error ''File not found in localStorage'')
          else
            (case ls_files ls (ix_username fileInfo) of
               None \<Rightarrow> Rejected TypeError
             | Some userFiles \<Rightarrow>
                 (case find (\<lambda>f. r_id f = fileId) userFiles of
                    None \<Rightarrow> Rejected (Error ''File not found in localStorage'')
                  | Some fileData \<Rightarrow>
                      (let blob = data_blob (r_data fileData)
                       in Resolved
                            \<lparr>g_id = Own (r_id fileData), g_filename = r_filename fileData,
                             g_filetype = r_filetype fileData, g_size = r_size fileData,
                             g_category = Own (r_category fileData),
                             g_uploadDate = Own (r_uploadDate fileData),
                             g_username = Own (r_username fileData),
                             g_data = Own (r_data fileData),
                             g_metadata = Some (Own (r_metadata fileData)),
                             g_spread = None,
                             g_url = blob, g_blob = blob\<rparr>))))"

definition ls_deleteFile :: "local_storage \<Rightarrow> string \<Rightarrow> bool promise \<times> local_storage" where
  "ls_deleteFile ls fileId =
     (case ls_index ls fileId of
        None \<Rightarrow> (Rejected (Error ''File not found in localStorage''), ls)
      | Some fileInfo \<Rightarrow>
          if ix_backend fileInfo \<noteq> ''localStorage''
          then (Rejected (Error ''File not found in localStorage''), ls)
          else
            (let files = ls_files ls;
                 files' = (case files (ix_username fileInfo) of
                             None \<Rightarrow> files
                           | Some userFiles \<Rightarrow>
                               files(ix_username fileInfo \<mapsto>
                                       filter (\<lambda>f. r_id f \<noteq> fileId) userFiles));
                 index' = (ls_index ls)(fileId := None)
             in (Resolved True, ls\<lparr>ls_files := files', ls_index := index'\<rparr>)))"

definition ls_getStats :: "local_storage \<Rightarrow> string \<Rightarrow> backend_stats promise" where
  "ls_getStats ls username =
     (case ls_getUserFiles ls username of
        Resolved files \<Rightarrow>
          Resolved \<lparr>st_type = ''localStorage'', st_fileCount = length files,
                    st_totalSize = foldl (\<lambda>sum file. sum + s_size file) 0 files,
                    st_maxSize = 10 * 1024 * 1024\<rparr>
      | Rejected e \<Rightarrow> Rejected e
      | Pending \<Rightarrow> Pending)"

subsection \<open>Dispatch to a backend\<close>

definition backend_storeFile ::
  "backend \<Rightarrow> host \<Rightarrow> world \<Rightarrow> string \<Rightarrow> jsfile \<Rightarrow> string \<Rightarrow> metadata
     \<Rightarrow> stored_file promise \<times> world" where
  "backend_storeFile b h w username file category metadata =
     (case b of
        IndexedDBBackend \<Rightarrow>
          (case idb_storeFile h (w_idb w) username file category metadata of
             (r, db') \<Rightarrow> (r, w\<lparr>w_idb := db'\<rparr>))
      | LocalStorageBackend \<Rightarrow>
          (case ls_storeFile h (w_ls w) username file category metadata of
             (r, ls') \<Rightarrow> (r, w\<lparr>w_ls := ls'\<rparr>)))"

definition backend_getUserFiles ::
  "backend \<Rightarrow> host \<Rightarrow> world \<Rightarrow> string \<Rightarrow> file_summary list promise" where
  "backend_getUserFiles b h w username =
     (case b of
        IndexedDBBackend \<Rightarrow> idb_getUserFiles h (w_idb w) username
      | LocalStorageBackend \<Rightarrow> ls_getUserFiles (w_ls w) username)"

definition backend_getFile :: "backend \<Rightarrow> host \<Rightarrow> world \<Rightarrow> string \<Rightarrow> fetched_file promise" where
  "backend_getFile b h w fileId =
     (case b of
        IndexedDBBackend \<Rightarrow> idb_getFile h (w_idb w) fileId
      | LocalStorageBackend \<Rightarrow> ls_getFile (w_ls w) fileId)"

definition backend_deleteFile :: "backend \<Rightarrow> host \<Rightarrow> world \<Rightarrow> string \<Rightarrow> bool promise \<times> world" where
  "backend_deleteFile b h w fileId =
     (case b of
        IndexedDBBackend \<Rightarrow>
          (case idb_deleteFile h (w_idb w) fileId of (r, db') \<Rightarrow> (r, w\<lparr>w_idb := db'\<rparr>))
      | LocalStorageBackend \<Rightarrow>
          (case ls_deleteFile (w_ls w) fileId of (r, ls') \<Rightarrow> (r, w\<lparr>w_ls := ls'\<rparr>)))"

definition backend_getStats :: "backend \<Rightarrow> host \<Rightarrow> world \<Rightarrow> string \<Rightarrow> backend_stats promise" where
  "backend_getStats b h w username =
     (case b of
        IndexedDBBackend \<Rightarrow> idb_getStats h (w_idb w) username
      | LocalStorageBackend \<Rightarrow> ls_getStats (w_ls w) username)"

subsection \<open>StorageManager\<close>

definition determineDirectory :: "string \<Rightarrow> metadata \<Rightarrow> string" where
  "determineDirectory category metadata =
     (if includes_str category ''JSON'' then
        (if md_jsonFormat metadata = Some ''sql'' then ''/json-sql/''
         else if md_jsonFormat metadata = Some ''nosql'' then ''/json-nosql/''
         else ''/json/'')
      else if includes_str category ''MEDIA'' then
        (if includes_str category ''IMAGE'' then ''/media/images/''
         else if includes_str category ''VIDEO'' then ''/media/videos/''
         else if includes_str category ''AUDIO'' then ''/media/audio/''
         else ''/media/'')
      else ''/files/'')"

text \<open>
  \<^verbatim>\<open>compressImage\<close>: the image fails to load (the promise rejects), or the canvas
  produces a blob or \<^verbatim>\<open>null\<close>; a blob strictly smaller than the file becomes a new
  JPEG file of the same name, anything else resolves with the file itself.
\<close>

definition compressImage :: "host \<Rightarrow> jsfile \<Rightarrow> jsfile promise" where
  "compressImage h file =
     (case h_canvas h of
        LoadFailed \<Rightarrow> Rejected (Error ''Failed to load image for compression'')
      | ToBlob None \<Rightarrow> Resolved file
      | ToBlob (Some blob) \<Rightarrow>
          if length blob < fsize file
          then Resolved \<lparr>name = name file, ftype = ''image/jpeg'', content = blob\<rparr>
          else Resolved file)"

text \<open>
  The first step of \<^verbatim>\<open>storeFile\<close>, its variable \<^verbatim>\<open>processedFile\<close>: the compressor is
  tried on an image over 500 KiB, and a failure of the compressor keeps the original.
\<close>

definition processedFile :: "host \<Rightarrow> jsfile \<Rightarrow> jsfile" where
  "processedFile h file =
     (if startsWith (ftype file) ''image/'' \<and> fsize file > 500 * 1024
      then (case compressImage h file of
              Resolved compressed \<Rightarrow> compressed
            | Rejected error \<Rightarrow> file
            | Pending \<Rightarrow> file)
      else file)"

text \<open>
  \<^verbatim>\<open>storeFile\<close>. Calling \<^verbatim>\<open>storeFile\<close> on the \<^verbatim>\<open>undefined\<close> backend of an empty list
  is a \<^verbatim>\<open>TypeError\<close>. \<^verbatim>\<open>processedFile !== file\<close> compares object identity; the
  compressor's new file is strictly smaller than the original, so it is also a
  different value.
\<close>

definition storeFile ::
  "backend list \<Rightarrow> host \<Rightarrow> world \<Rightarrow> string \<Rightarrow> jsfile \<Rightarrow> string \<Rightarrow> metadata
     \<Rightarrow> stored_file promise \<times> world" where
  "storeFile backends h w username file category metadata =
     (let processed = processedFile h file;
          directory = determineDirectory category metadata
      in case selectBackendForFile backends processed of
           None \<Rightarrow> (Rejected TypeError, w)
         | Some backend \<Rightarrow>
             backend_storeFile backend h w username processed category
               (metadata\<lparr>md_originalSize := Some (fsize file),
                          md_compressed := Some (processed \<noteq> file),
                          md_directory := Some directory\<rparr>))"

text \<open>
  \<^verbatim>\<open>getUserFiles\<close>: the inner loop over the files of one backend, the outer loop over
  the backends, with the set \<^verbatim>\<open>seenFileIds\<close> and the array \<^verbatim>\<open>allFiles\<close>. A backend
  whose call rejects is skipped.
\<close>

fun addUnseen :: "file_summary list \<Rightarrow> string set \<times> file_summary list
                    \<Rightarrow> string set \<times> file_summary list" where
  "addUnseen [] (seenFileIds, allFiles) = (seenFileIds, allFiles)"
| "addUnseen (file # files) (seenFileIds, allFiles) =
     (if s_id file \<notin> seenFileIds
      then addUnseen files (insert (s_id file) seenFileIds, allFiles @ [file])
      else addUnseen files (seenFileIds, allFiles))"

fun collectFiles :: "backend list \<Rightarrow> host \<Rightarrow> world \<Rightarrow> string
                       \<Rightarrow> string set \<times> file_summary list
                       \<Rightarrow> (string set \<times> file_summary list) option" where
  "collectFiles [] h w username acc = Some acc"
| "collectFiles (backend # backends) h w username acc =
     (case backend_getUserFiles backend h w username of
        Resolved files \<Rightarrow> collectFiles backends h w username (addUnseen files acc)
      | Rejected error \<Rightarrow> collectFiles backends h w username acc
      | Pending \<Rightarrow> None)"

definition getUserFiles :: "backend list \<Rightarrow> host \<Rightarrow> world \<Rightarrow> string \<Rightarrow> file_summary list promise" where
  "getUserFiles backends h w username =
     (case collectFiles backends h w username ({}, []) of
        Some (seenFileIds, allFiles) \<Rightarrow> Resolved allFiles
      | None \<Rightarrow> Pending)"

fun getFile :: "backend list \<Rightarrow> host \<Rightarrow> world \<Rightarrow> string \<Rightarrow> fetched_file promise" where
  "getFile [] h w fileId = Rejected (Error ''File not found in any storage backend'')"
| "getFile (backend # backends) h w fileId =
     (case backend_getFile backend h w fileId of
        Resolved file \<Rightarrow> Resolved file
      | Rejected error \<Rightarrow> getFile backends h w fileId
      | Pending \<Rightarrow> Pending)"

fun deleteLoop :: "backend list \<Rightarrow> host \<Rightarrow> world \<Rightarrow> string \<Rightarrow> bool \<Rightarrow> bool promise \<times> world" where
  "deleteLoop [] h w fileId deleted = (Resolved deleted, w)"
| "deleteLoop (backend # backends) h w fileId deleted =
     (case backend_deleteFile backend h w fileId of
        (Resolved ok, w') \<Rightarrow> deleteLoop backends h w' fileId True
      | (Rejected error, w') \<Rightarrow> deleteLoop backends h w' fileId deleted
      | (Pending, w') \<Rightarrow> (Pending, w'))"

definition deleteFile :: "backend list \<Rightarrow> host \<Rightarrow> world \<Rightarrow> string \<Rightarrow> bool promise \<times> world" where
  "deleteFile backends h w fileId = deleteLoop backends h w fileId False"

text \<open>
  \<^verbatim>\<open>x.toFixed(1)\<close> picks the integer \<open>n\<close> with \<open>n / 10\<close> nearest to \<open>x\<close>, the larger one
  on a tie, and prints \<open>n / 10\<close> with one decimal; the model returns \<open>n\<close>, the value
  in tenths. Byte totals are integers far below \<open>2\<^sup>5\<^sup>3\<close>, for which the double
  arithmetic of \<^verbatim>\<open>(totalSize / (1024 * 1024 * 1024)) * 100\<close> is exact below the cap
  of 100, so the expression is computed in the rationals.
\<close>

definition toFixed1 :: "rat \<Rightarrow> int" where
  "toFixed1 x = \<lfloor>x * 10 + 1 / 2\<rfloor>"

definition uniqueFirst :: "'a list \<Rightarrow> 'a list" where
  "uniqueFirst xs = rev (remdups (rev xs))"

record storage_stats =
  ss_fileCount :: nat
  ss_totalSize :: nat
  ss_usedPercentage :: int
  ss_categories :: "string list"
  ss_backends :: "backend_stats list"

fun collectStats :: "backend list \<Rightarrow> host \<Rightarrow> world \<Rightarrow> string \<Rightarrow> backend_stats list
                        \<Rightarrow> backend_stats list option" where
  "collectStats [] h w username backendStats = Some backendStats"
| "collectStats (backend # backends) h w username backendStats =
     (case backend_getStats backend h w username of
        Resolved stats \<Rightarrow> collectStats backends h w username (backendStats @ [stats])
      | Rejected error \<Rightarrow> collectStats backends h w username backendStats
      | Pending \<Rightarrow> None)"

definition getStorageStats :: "backend list \<Rightarrow> host \<Rightarrow> world \<Rightarrow> string \<Rightarrow> storage_stats promise" where
  "getStorageStats backends h w username =
     (case getUserFiles backends h w username of
        Resolved files \<Rightarrow>
          (let totalSize = foldl (\<lambda>sum file. sum + s_size file) 0 files
           in case collectStats backends h w username [] of
                Some backendStats \<Rightarrow>
                  Resolved
                    \<lparr>ss_fileCount = length files,
                     ss_totalSize = totalSize,
                     ss_usedPercentage =
                       toFixed1 (min ((of_nat totalSize / (1024 * 1024 * 1024)) * 100) 100),
                     ss_categories = uniqueFirst (map s_category files),
                     ss_backends = backendStats\<rparr>
              | None \<Rightarrow> Pending)
      | Rejected error \<Rightarrow> Rejected error
      | Pending \<Rightarrow> Pending)"

section \<open>Notions used by the properties\<close>

text \<open>
  The pairing of the two object stores: every id of the \<^verbatim>\<open>files\<close> store is an id of
  the \<^verbatim>\<open>metadata\<close> store.
\<close>

definition idb_paired :: "idb \<Rightarrow> bool" where
  "idb_paired db = (f_id ` set (files_store db) \<subseteq> m_id ` set (metadata_store db))"

text \<open>
  A backend holds an id: the \<^verbatim>\<open>files\<close> store of IndexedDB has a record with it; the
  index of \<^verbatim>\<open>localStorage\<close> knows it as one of its files and the list of the indexed
  user has a record with it.
\<close>

definition backend_holds :: "backend \<Rightarrow> world \<Rightarrow> string \<Rightarrow> bool" where
  "backend_holds b w fileId =
     (case b of
        IndexedDBBackend \<Rightarrow> fileId \<in> f_id ` set (files_store (w_idb w))
      | LocalStorageBackend \<Rightarrow>
          (case ls_index (w_ls w) fileId of
             None \<Rightarrow> False
           | Some fileInfo \<Rightarrow>
               ix_backend fileInfo = ''localStorage''
               \<and> fileId \<in> r_id ` set (case ls_files (w_ls w) (ix_username fileInfo) of
                                          None \<Rightarrow> [] | Some userFiles \<Rightarrow> userFiles)))"

text \<open>A host without faults and the empty stores, for concrete instances.\<close>

definition host0 :: host where
  "host0 = \<lparr>h_supportsIndexedDB = True, h_indexedDB_opens = True, h_supportsLocalStorage = True,
            h_estimate = None, h_canvas = ToBlob None, h_stamp = ''1700000000000'',
            h_rand = ''k3j9x2m1q'', h_now = ''2024-01-01T00:00:00.000Z'',
            h_read_fails = False, h_idb_quota_exceeded = False, h_idb_request_fails = False,
            h_dom_message = ''Key already exists in the object store.'', h_ls_fault = NoFault\<rparr>"

definition empty_world :: world where
  "empty_world = \<lparr>w_idb = \<lparr>files_store = [], metadata_store = []\<rparr>,
                  w_ls = \<lparr>ls_files = Map.empty, ls_index = Map.empty\<rparr>\<rparr>"

definition big_file :: jsfile where
  "big_file = \<lparr>name = ''big.bin'', ftype = ''application/octet-stream'',
               content = replicate (5 * 1024 * 1024 + 1) 0\<rparr>"

definition no_metadata :: metadata where
  "no_metadata = \<lparr>md_intelligentAnalysis = None, md_jsonFormat = None, md_description = None,
                  md_filename = None, md_size = None, md_filetype = None,
                  md_originalSize = None, md_compressed = None, md_directory = None,
                  md_other = []\<rparr>"

text \<open>The files a backend reports for a user; none when its call fails.\<close>

definition backendFiles :: "host \<Rightarrow> world \<Rightarrow> string \<Rightarrow> backend \<Rightarrow> file_summary list" where
  "backendFiles h w username b =
     (case backend_getUserFiles b h w username of
        Resolved files \<Rightarrow> files | Rejected e \<Rightarrow> [] | Pending \<Rightarrow> [])"

text \<open>
  The metadata of a fetched record, where a reader finds its keys: spread into the
  record (IndexedDB, \<^verbatim>\<open>record.originalSize\<close>) or under the record's own \<^verbatim>\<open>metadata\<close>
  (localStorage, \<^verbatim>\<open>record.metadata.originalSize\<close>). The bytes of a stored payload.
  The records of a user in \<^verbatim>\<open>localStorage\<close>.
\<close>

definition fetched_metadata :: "fetched_file \<Rightarrow> metadata option" where
  "fetched_metadata g =
     (case g_spread g of
        Some md \<Rightarrow> Some md
      | None \<Rightarrow> (case g_metadata g of
                   Some (Own md) \<Rightarrow> Some md
                 | Some (Replaced t) \<Rightarrow> None
                 | None \<Rightarrow> None))"

definition payload_bytes :: "payload \<Rightarrow> byte list" where
  "payload_bytes d = (case d of ArrayBuffer bs \<Rightarrow> bs | DataURL t bs \<Rightarrow> bs)"

definition userFilesOf :: "local_storage \<Rightarrow> string \<Rightarrow> ls_record list" where
  "userFilesOf ls username = (case ls_files ls username of None \<Rightarrow> [] | Some fs \<Rightarrow> fs)"

text \<open>
  The payloads a backend keeps under an id, read from its state in storage order: the
  \<^verbatim>\<open>data\<close> of the records of the \<^verbatim>\<open>files\<close> store, or of the user's records in
  \<^verbatim>\<open>localStorage\<close>, that carry the id.
\<close>

definition stored_bytes :: "backend \<Rightarrow> world \<Rightarrow> string \<Rightarrow> string \<Rightarrow> byte list list" where
  "stored_bytes b w username fileId =
     (case b of
        IndexedDBBackend \<Rightarrow>
          map f_data (filter (\<lambda>r. f_id r = fileId) (files_store (w_idb w)))
      | LocalStorageBackend \<Rightarrow>
          map (\<lambda>r. payload_bytes (r_data r))
              (filter (\<lambda>r. r_id r = fileId) (userFilesOf (w_ls w) username)))"

text \<open>The value a promise resolved with, if it did.\<close>

fun resolved :: "'a promise \<Rightarrow> 'a option" where
  "resolved (Resolved v) = Some v"
| "resolved (Rejected e) = None"
| "resolved Pending = None"

text \<open>
  The bytes to store as the specification words them: an image over 500 KiB goes
  through the compressor, whose output is taken when it is strictly smaller than the
  original; in every other case the original bytes are kept.
\<close>

definition spec_stored_bytes :: "host \<Rightarrow> jsfile \<Rightarrow> byte list" where
  "spec_stored_bytes h file =
     (if startsWith (ftype file) ''image/'' \<and> 500 * 1024 < length (content file) then
        (case h_canvas h of
           ToBlob (Some compressed) \<Rightarrow>
             if length compressed < length (content file) then compressed else content file
         | ToBlob None \<Rightarrow> content file
         | LoadFailed \<Rightarrow> content file)
      else content file)"

definition small_file :: jsfile where
  "small_file = \<lparr>name = ''notes.txt'', ftype = ''text/plain'', content = [104, 105]\<rparr>"

definition photo :: jsfile where
  "photo = \<lparr>name = ''photo.png'', ftype = ''image/png'',
            content = replicate (500 * 1024 + 1) 7\<rparr>"

definition host_jpeg :: host where
  "host_jpeg = host0\<lparr>h_canvas := ToBlob (Some [255, 216, 255])\<rparr>"

definition other_file :: jsfile where
  "other_file = \<lparr>name = ''other.txt'', ftype = ''text/plain'', content = [98, 121, 101]\<rparr>"

text \<open>
  \<^verbatim>\<open>localStorage\<close> after \<open>small_file\<close> has been stored for \<^verbatim>\<open>alice\<close>, and after
  \<open>other_file\<close> has then been stored for her with the same clock reading and the same
  random suffix.
\<close>

definition world_one :: world where
  "world_one = snd (storeFile [LocalStorageBackend] host0 empty_world ''alice'' small_file
                      ''DOCUMENT_TXT'' no_metadata)"

definition world_two :: world where
  "world_two = snd (storeFile [LocalStorageBackend] host0 world_one ''alice'' other_file
                      ''DOCUMENT_TXT'' no_metadata)"

text \<open>
  A photo of 600 KiB uploaded with the analysis a caller attaches, which carries the
  size of the file before compression, and the stores after it has been stored.
\<close>

definition photo600 :: jsfile where
  "photo600 = \<lparr>name = ''photo.png'', ftype = ''image/png'',
               content = replicate (600 * 1024) 7\<rparr>"

definition analysed_metadata :: metadata where
  "analysed_metadata =
     no_metadata\<lparr>md_intelligentAnalysis :=
       Some \<lparr>an_filename = Some ''photo.png'', an_mainType = Some ''media'',
             an_size = Some (600 * 1024)\<rparr>\<rparr>"

definition world_photo :: world where
  "world_photo = snd (storeFile [IndexedDBBackend, LocalStorageBackend] host_jpeg empty_world
                        ''alice'' photo600 ''MEDIA_IMAGE'' analysed_metadata)"

text \<open>The size \<^verbatim>\<open>IndexedDBBackend.getUserFiles\<close> lists for a metadata record.\<close>

definition listed_size :: "idb_meta \<Rightarrow> nat" where
  "listed_size item =
     or_num [Option.bind (md_intelligentAnalysis (m_metadata item)) an_size,
             md_size (m_metadata item)] 0"

definition db1 :: idb where
  "db1 = \<lparr>files_store =
            [\<lparr>f_id = ''idb_1_a'', f_filename = ''notes.txt'', f_filetype = ''text/plain'',
              f_size = 2, f_category = ''DOCUMENT_TXT'',
              f_uploadDate = ''2024-01-01T00:00:00.000Z'', f_username = ''alice'',
              f_data = [104, 105]\<rparr>],
          metadata_store =
            [\<lparr>m_id = ''idb_1_a'', m_username = ''alice'', m_metadata = no_metadata,
              m_category = ''DOCUMENT_TXT'', m_uploadDate = ''2024-01-01T00:00:00.000Z''\<rparr>]\<rparr>"

section \<open>Properties\<close>

subsection \<open>Backend selection\<close>

lemma at_index_0: "at_index xs 0 = (case xs of [] \<Rightarrow> None | x # _ \<Rightarrow> Some x)"
  by (cases xs) (simp_all add: at_index_def)

lemma at_index_Nil: "at_index [] i = None"
  by (simp add: at_index_def)

text \<open>
  C2, as stated, fails: when the browser has no IndexedDB, the localStorage backend is
  the only one of the list, and it is selected for a file of 6 MiB, which does not
  fit the 5 MiB cap. And when IndexedDB exists but fails to open, the list is empty
  although localStorage is supported, and no backend is selected.
\<close>

theorem selectBackendForFile_ignores_cap_counterexample:
  "initializeBackends (host0\<lparr>h_supportsIndexedDB := False\<rparr>) = [LocalStorageBackend]
   \<and> selectBackendForFile [LocalStorageBackend]
      \<lparr>name = ''big.bin'', ftype = ''application/octet-stream'',
       content = replicate (6 * 1024 * 1024) 0\<rparr> = Some LocalStorageBackend
   \<and> \<not> fsize \<lparr>name = ''big.bin'', ftype = ''application/octet-stream'',
       content = replicate (6 * 1024 * 1024) 0\<rparr> \<le> 5 * 1024 * 1024
   \<and> h_supportsLocalStorage (host0\<lparr>h_indexedDB_opens := False\<rparr>)
   \<and> initializeBackends (host0\<lparr>h_indexedDB_opens := False\<rparr>) = []
   \<and> selectBackendForFile (initializeBackends (host0\<lparr>h_indexedDB_opens := False\<rparr>))
        small_file = None"
  by (simp add: selectBackendForFile_def at_index_def fsize_def initializeBackends_def host0_def)

text \<open>
  C2, amended: the selection is deterministic and does not depend on the file: it is
  the first backend of the manager's list, and none when the list is empty. For the
  list that \<^verbatim>\<open>initializeBackends\<close> builds, the IndexedDB backend is selected exactly
  when it is in the list (the browser has IndexedDB and it opened), and the
  localStorage backend is selected exactly when it is the whole list (the browser
  has no IndexedDB and supports localStorage), whether or not the file fits the cap
  of 5 MiB; when IndexedDB exists and fails to open, or neither store is supported,
  no backend is selected.
\<close>

theorem selectBackendForFile_first_backend:
  "selectBackendForFile backends file = (case backends of [] \<Rightarrow> None | b # _ \<Rightarrow> Some b)
   \<and> selectBackendForFile backends file = selectBackendForFile backends file'
   \<and> selectBackendForFile (initializeBackends h) file =
       (if h_supportsIndexedDB h \<and> h_indexedDB_opens h then Some IndexedDBBackend
        else if \<not> h_supportsIndexedDB h \<and> h_supportsLocalStorage h then Some LocalStorageBackend
        else None)
   \<and> (selectBackendForFile (initializeBackends h) file = Some IndexedDBBackend)
       = (IndexedDBBackend \<in> set (initializeBackends h))
   \<and> (selectBackendForFile (initializeBackends h) file = Some LocalStorageBackend)
       = (initializeBackends h = [LocalStorageBackend])"
proof -
  have first: "\<And>f. selectBackendForFile backends f
                   = (case backends of [] \<Rightarrow> None | b # _ \<Rightarrow> Some b)"
    by (cases backends)
       (simp_all add: selectBackendForFile_def at_index_0 at_index_Nil)
  have init: "\<And>f. selectBackendForFile (initializeBackends h) f
                   = (case initializeBackends h of [] \<Rightarrow> None | b # _ \<Rightarrow> Some b)"
    by (cases "initializeBackends h")
       (simp_all add: selectBackendForFile_def at_index_0 at_index_Nil)
  show ?thesis
    unfolding first init by (simp add: initializeBackends_def)
qed

subsection \<open>Admission control\<close>

text \<open>
  C4: \<^verbatim>\<open>canStoreFile\<close> admits exactly when the quota is unknown or the available bytes
  are at least the candidate's bytes plus the margin of 10 MiB (the boundary admits);
  a refusal carries a reason, an admission carries none.
\<close>

theorem canStoreFile_admits_iff:
  "canStore (canStoreFile h fileSize) =
     (case h_estimate h of
        None \<Rightarrow> True
      | Some estimate \<Rightarrow> quota estimate - usage estimate \<ge> fileSize + 10 * 1024 * 1024)
   \<and> (reason (canStoreFile h fileSize) = None) = canStore (canStoreFile h fileSize)"
  by (simp add: canStoreFile_def checkStorageQuota_def Let_def split: option.splits)

subsection \<open>The localStorage backend and its per-file cap\<close>

text \<open>
  C7: a file strictly larger than the cap of 5 MiB is rejected by
  \<^verbatim>\<open>LocalStorageBackend.storeFile\<close> with the message of the size check, and the
  storage is left as it was: neither the file list nor the index is written.
\<close>

theorem ls_storeFile_rejects_oversize:
  "5 * 1024 * 1024 < fsize file \<Longrightarrow>
   ls_storeFile h ls username file category metadata
     = (Rejected (Error ''File too large for localStorage. Max: 5 MB''), ls)"
  by (simp add: ls_storeFile_def maxFileSize_def)

theorem ls_storeFile_rejects_oversize_witness:
  "5 * 1024 * 1024 < fsize big_file \<and>
   ls_storeFile host0 (w_ls empty_world) ''alice'' big_file ''UNKNOWN_UNKNOWN'' no_metadata
     = (Rejected (Error ''File too large for localStorage. Max: 5 MB''), w_ls empty_world)"
  using ls_storeFile_rejects_oversize
          [of big_file host0 "w_ls empty_world" "''alice''" "''UNKNOWN_UNKNOWN''" no_metadata]
  by (simp add: fsize_def big_file_def)

subsection \<open>Object stores\<close>

lemma set_store_add: "store_add key r rs = Some rs' \<Longrightarrow> set rs' = insert r (set rs)"
  by (auto simp: store_add_def set_insort_key split: if_splits)

lemma set_store_delete: "set (store_delete key k rs) = {r \<in> set rs. key r \<noteq> k}"
  by (auto simp: store_delete_def)

lemma store_get_None_iff: "store_get key k rs = None \<longleftrightarrow> k \<notin> key ` set rs"
  by (auto simp: store_get_def find_None_iff)

lemma find_insort_key_fresh:
  "key r \<notin> key ` set rs \<Longrightarrow> find (\<lambda>x. key x = key r) (insort_key key r rs) = Some r"
  by (induction rs) auto

lemma store_get_store_add:
  "store_add key r rs = Some rs' \<Longrightarrow> store_get key (key r) rs' = Some r"
  by (auto simp: store_add_def store_get_def find_insort_key_fresh split: if_splits)

lemma keys_store_add:
  "store_add key r rs = Some rs' \<Longrightarrow> key ` set rs' = insert (key r) (key ` set rs)"
  by (simp add: set_store_add)

lemma idb_storeFile_ids:
  "snd (idb_storeFile h db username file category metadata) = db \<or>
   (f_id ` set (files_store (snd (idb_storeFile h db username file category metadata)))
        = insert (idb_generateFileId h) (f_id ` set (files_store db))
    \<and> m_id ` set (metadata_store (snd (idb_storeFile h db username file category metadata)))
        = insert (idb_generateFileId h) (m_id ` set (metadata_store db)))"
  by (auto simp: idb_storeFile_def Let_def dest!: keys_store_add split: option.splits)

lemma idb_storeFile_paired:
  "idb_paired db \<Longrightarrow> idb_paired (snd (idb_storeFile h db username file category metadata))"
proof -
  assume p: "idb_paired db"
  from idb_storeFile_ids[of h db username "file" category metadata]
  show ?thesis
  proof (elim disjE conjE)
    assume "snd (idb_storeFile h db username file category metadata) = db"
    with p show ?thesis by simp
  next
    assume "f_id ` set (files_store (snd (idb_storeFile h db username file category metadata)))
        = insert (idb_generateFileId h) (f_id ` set (files_store db))"
      and "m_id ` set (metadata_store (snd (idb_storeFile h db username file category metadata)))
        = insert (idb_generateFileId h) (m_id ` set (metadata_store db))"
    with p show ?thesis unfolding idb_paired_def by (simp add: subset_insertI2)
  qed
qed

lemma idb_deleteFile_paired:
  "idb_paired db \<Longrightarrow> idb_paired (snd (idb_deleteFile h db fileId))"
  by (auto simp: idb_deleteFile_def idb_paired_def set_store_delete)

lemma idb_getFile_settles:
  "idb_paired db \<Longrightarrow> idb_getFile h db fileId \<noteq> Pending"
proof -
  assume p: "idb_paired db"
  show ?thesis
  proof (cases "store_get f_id fileId (files_store db)")
    case None
    then show ?thesis by (simp add: idb_getFile_def)
  next
    case (Some fileData)
    then have "fileId \<in> f_id ` set (files_store db)"
      using store_get_None_iff[of f_id fileId "files_store db"] by simp
    with p have "fileId \<in> m_id ` set (metadata_store db)"
      by (auto simp: idb_paired_def)
    then have "store_get m_id fileId (metadata_store db) \<noteq> None"
      by (simp add: store_get_None_iff)
    with Some show ?thesis by (auto simp: idb_getFile_def Let_def)
  qed
qed

lemma idb_storeFile_both_or_neither:
  "(case idb_storeFile h db username file category metadata of
      (Resolved r, db') \<Rightarrow>
         sf_id r \<in> f_id ` set (files_store db') \<and> sf_id r \<in> m_id ` set (metadata_store db')
    | (Rejected e, db') \<Rightarrow> db' = db
    | (Pending, db') \<Rightarrow> False)"
  by (auto simp: idb_storeFile_def Let_def dest!: set_store_add split: option.splits)

lemma idb_deleteFile_both:
  "(case idb_deleteFile h db fileId of
      (Resolved ok, db') \<Rightarrow>
         fileId \<notin> f_id ` set (files_store db') \<and> fileId \<notin> m_id ` set (metadata_store db')
    | (Rejected e, db') \<Rightarrow> db' = db
    | (Pending, db') \<Rightarrow> False)"
  by (auto simp: idb_deleteFile_def set_store_delete)

lemma idb_getFile_Pending_iff:
  "(idb_getFile h db fileId = Pending) =
     (\<not> h_idb_request_fails h \<and> fileId \<in> f_id ` set (files_store db)
      \<and> fileId \<notin> m_id ` set (metadata_store db))"
proof (cases "store_get f_id fileId (files_store db)")
  case None
  then show ?thesis
    using store_get_None_iff[of f_id fileId "files_store db"] by (simp add: idb_getFile_def)
next
  case (Some fileData)
  then have "fileId \<in> f_id ` set (files_store db)"
    using store_get_None_iff[of f_id fileId "files_store db"] by simp
  with Some show ?thesis
    using store_get_None_iff[of m_id fileId "metadata_store db"]
    by (cases "store_get m_id fileId (metadata_store db)") (simp_all add: idb_getFile_def Let_def)
qed

subsection \<open>The pairing of file and metadata records\<close>

text \<open>
  C9: the pairing of the two IndexedDB object stores is an invariant of the backend.
  \<^verbatim>\<open>storeFile\<close> adds a record under the new id to both stores or changes nothing,
  \<^verbatim>\<open>deleteFile\<close> removes the id from both stores, both preserve the pairing, and
  under the pairing \<^verbatim>\<open>getFile\<close> always settles: the metadata record it dereferences
  is there whenever the file record is. On any database, \<^verbatim>\<open>getFile\<close> fails to settle
  exactly for an id that has a file record and no metadata record.
\<close>

theorem idb_pairing_invariant:
  assumes "idb_paired db"
  shows "idb_paired (snd (idb_storeFile h db username file category metadata))
       \<and> idb_paired (snd (idb_deleteFile h db fileId))
       \<and> idb_getFile h db fileId \<noteq> Pending
       \<and> (case idb_storeFile h db username file category metadata of
             (Resolved r, db') \<Rightarrow>
               sf_id r \<in> f_id ` set (files_store db') \<and> sf_id r \<in> m_id ` set (metadata_store db')
           | (Rejected e, db') \<Rightarrow> db' = db
           | (Pending, db') \<Rightarrow> False)
       \<and> (case idb_deleteFile h db fileId of
             (Resolved ok, db') \<Rightarrow>
               fileId \<notin> f_id ` set (files_store db') \<and> fileId \<notin> m_id ` set (metadata_store db')
           | (Rejected e, db') \<Rightarrow> db' = db
           | (Pending, db') \<Rightarrow> False)
       \<and> (idb_getFile h any_db fileId = Pending) =
           (\<not> h_idb_request_fails h \<and> fileId \<in> f_id ` set (files_store any_db)
            \<and> fileId \<notin> m_id ` set (metadata_store any_db))"
  using assms idb_getFile_Pending_iff[of h any_db fileId]
  by (simp add: idb_storeFile_paired idb_deleteFile_paired idb_getFile_settles
        idb_storeFile_both_or_neither idb_deleteFile_both)

theorem idb_pairing_invariant_witness:
  "idb_paired db1
   \<and> idb_paired (snd (idb_storeFile host0 db1 ''alice'' small_file ''DOCUMENT_TXT'' no_metadata))
   \<and> idb_paired (snd (idb_deleteFile host0 db1 ''idb_1_a''))
   \<and> idb_getFile host0 db1 ''idb_1_a'' \<noteq> Pending"
proof -
  have paired: "idb_paired db1" by (simp add: idb_paired_def db1_def)
  from idb_pairing_invariant
         [OF paired, of host0 "''alice''" small_file "''DOCUMENT_TXT''" no_metadata "''idb_1_a''"]
       paired
  show ?thesis by blast
qed

subsection \<open>Deleting\<close>

text \<open>
  C3, on the code: with the IndexedDB backend in the list, deleting an id that no
  backend holds resolves with \<^verbatim>\<open>true\<close>. \<^verbatim>\<open>IndexedDBBackend.deleteFile\<close> never looks
  whether the id exists, so the manager's flag is set by it every time.
\<close>

theorem deleteFile_absent_id_reports_success:
  "\<not> backend_holds IndexedDBBackend empty_world ''idb_0_absent''
   \<and> \<not> backend_holds LocalStorageBackend empty_world ''idb_0_absent''
   \<and> deleteFile [IndexedDBBackend, LocalStorageBackend] host0 empty_world ''idb_0_absent''
       = (Resolved True, empty_world)"
  by (simp add: deleteFile_def backend_deleteFile_def idb_deleteFile_def ls_deleteFile_def
      host0_def empty_world_def store_delete_def backend_holds_def)

subsection \<open>Fetching by id\<close>

lemma getFile_find:
  "getFile bs h w fileId =
     (case find (\<lambda>b. \<not> is_Rejected (backend_getFile b h w fileId)) bs of
        Some b \<Rightarrow> backend_getFile b h w fileId
      | None \<Rightarrow> Rejected (Error ''File not found in any storage backend''))"
  by (induction bs) (auto split: promise.splits)

lemma find_Some_mem: "find P xs = Some x \<Longrightarrow> x \<in> set xs \<and> P x"
  by (induction xs) (auto split: if_splits)

lemma backend_getFile_not_held:
  "\<not> backend_holds b w fileId \<Longrightarrow> is_Rejected (backend_getFile b h w fileId)"
proof (cases b)
  case IndexedDBBackend
  assume "\<not> backend_holds b w fileId"
  with IndexedDBBackend have "store_get f_id fileId (files_store (w_idb w)) = None"
    by (simp add: backend_holds_def store_get_None_iff)
  with IndexedDBBackend show ?thesis by (simp add: backend_getFile_def idb_getFile_def)
next
  case LocalStorageBackend
  assume "\<not> backend_holds b w fileId"
  with LocalStorageBackend show ?thesis
    by (auto simp: backend_holds_def backend_getFile_def ls_getFile_def Let_def
             split: option.splits dest!: find_Some_mem)
qed

lemma getFile_NotFound:
  "\<forall>b\<in>set bs. \<not> backend_holds b w fileId \<Longrightarrow>
   getFile bs h w fileId = Rejected (Error ''File not found in any storage backend'')"
proof (induction bs)
  case Nil
  then show ?case by simp
next
  case (Cons b bs)
  then have "is_Rejected (backend_getFile b h w fileId)"
    by (simp add: backend_getFile_not_held)
  then obtain e where "backend_getFile b h w fileId = Rejected e"
    by (cases "backend_getFile b h w fileId") auto
  with Cons show ?case by simp
qed

lemma backend_getFile_settles:
  "idb_paired (w_idb w) \<Longrightarrow> backend_getFile b h w fileId \<noteq> Pending"
  by (cases b)
     (auto simp: backend_getFile_def idb_getFile_settles ls_getFile_def Let_def
           split: option.splits)

lemma getFile_settles: "idb_paired (w_idb w) \<Longrightarrow> getFile bs h w fileId \<noteq> Pending"
proof (induction bs)
  case Nil
  then show ?case by simp
next
  case (Cons b bs)
  with backend_getFile_settles[of w b h fileId] show ?case
    by (cases "backend_getFile b h w fileId") simp_all
qed

text \<open>
  C6: \<^verbatim>\<open>getFile\<close> answers with the outcome of the first backend, in the order of the
  list, whose \<^verbatim>\<open>getFile\<close> does not reject; backends that reject are passed over and
  the next one is probed; when every backend rejects, and in particular when no
  backend holds the id, the manager rejects with its own not-found error. With the
  IndexedDB stores paired the call always settles.
\<close>

theorem getFile_first_hit_or_not_found:
  "getFile bs h w fileId =
     (case find (\<lambda>b. \<not> is_Rejected (backend_getFile b h w fileId)) bs of
        Some b \<Rightarrow> backend_getFile b h w fileId
      | None \<Rightarrow> Rejected (Error ''File not found in any storage backend''))
   \<and> ((\<forall>b\<in>set bs. \<not> backend_holds b w fileId) \<longrightarrow>
        getFile bs h w fileId = Rejected (Error ''File not found in any storage backend''))
   \<and> (idb_paired (w_idb w) \<longrightarrow> getFile bs h w fileId \<noteq> Pending)"
  using getFile_find getFile_NotFound getFile_settles by blast

theorem getFile_first_hit_or_not_found_witness:
  "\<not> backend_holds IndexedDBBackend empty_world ''ls_1_x''
   \<and> \<not> backend_holds LocalStorageBackend empty_world ''ls_1_x''
   \<and> idb_paired (w_idb empty_world)
   \<and> getFile [IndexedDBBackend, LocalStorageBackend] host0 empty_world ''ls_1_x''
       = Rejected (Error ''File not found in any storage backend'')
   \<and> getFile [IndexedDBBackend, LocalStorageBackend] host0 empty_world ''ls_1_x'' \<noteq> Pending"
proof -
  have h1: "\<not> backend_holds IndexedDBBackend empty_world ''ls_1_x''"
    and h2: "\<not> backend_holds LocalStorageBackend empty_world ''ls_1_x''"
    by (simp_all add: backend_holds_def empty_world_def)
  then have none_holds:
    "\<forall>b\<in>set [IndexedDBBackend, LocalStorageBackend]. \<not> backend_holds b empty_world ''ls_1_x''"
    by simp
  have paired: "idb_paired (w_idb empty_world)"
    by (simp add: idb_paired_def empty_world_def)
  from getFile_first_hit_or_not_found
         [of "[IndexedDBBackend, LocalStorageBackend]" host0 empty_world "''ls_1_x''"]
       none_holds paired
  have "getFile [IndexedDBBackend, LocalStorageBackend] host0 empty_world ''ls_1_x''
          = Rejected (Error ''File not found in any storage backend'')"
    and "getFile [IndexedDBBackend, LocalStorageBackend] host0 empty_world ''ls_1_x'' \<noteq> Pending"
    by blast+
  with h1 h2 paired show ?thesis by blast
qed


subsection \<open>Store, then fetch\<close>

lemma find_append':
  "find P (xs @ ys) = (case find P xs of None \<Rightarrow> find P ys | Some x \<Rightarrow> Some x)"
  by (induction xs) auto

lemma idb_store_then_get:
  assumes "idb_storeFile h db username file category metadata = (Resolved r, db')"
    and "\<not> h_idb_request_fails h'"
  shows "\<exists>g. idb_getFile h' db' (sf_id r) = Resolved g
           \<and> b_bytes (g_blob g) = content file
           \<and> g_spread g = Some (metadata\<lparr>md_filename := Some (name file),
                                           md_size := Some (fsize file),
                                           md_filetype := Some (ftype file)\<rparr>)"
  using assms
  by (auto simp: idb_storeFile_def idb_getFile_def Let_def
           split: if_splits option.splits dest!: store_get_store_add)

lemma ls_store_then_get:
  assumes "ls_storeFile h ls username file category metadata = (Resolved r, ls')"
    and "\<forall>rec\<in>set (userFilesOf ls username). r_id rec \<noteq> ls_generateFileId h"
  shows "\<exists>g. ls_getFile ls' (sf_id r) = Resolved g
           \<and> b_bytes (g_blob g) = content file
           \<and> g_spread g = None
           \<and> g_metadata g = Some (Own (metadata\<lparr>md_filename := Some (name file),
                                                  md_size := Some (fsize file),
                                                  md_filetype := Some (ftype file)\<rparr>))"
proof -
  have nf: "find (\<lambda>f. r_id f = ls_generateFileId h) (userFilesOf ls username) = None"
    using assms(2) by (auto simp: find_None_iff)
  show ?thesis
    using assms(1) nf
    by (auto simp: ls_storeFile_def saveToLocalStorage_def ls_getFile_def Let_def
          fileToBase64_def data_blob_def find_append' userFilesOf_def
          split: if_splits ls_fault.splits option.splits)
qed

lemma selectBackendForFile_Some:
  "selectBackendForFile bs f = Some b \<Longrightarrow> \<exists>rest. bs = b # rest"
  by (cases bs) (simp_all add: selectBackendForFile_def at_index_def)

lemma processedFile_cases:
  "processedFile h file = file \<or>
   (startsWith (ftype file) ''image/'' \<and> 500 * 1024 < fsize file
    \<and> (\<exists>blob. h_canvas h = ToBlob (Some blob) \<and> length blob < fsize file
          \<and> processedFile h file = \<lparr>name = name file, ftype = ''image/jpeg'', content = blob\<rparr>))"
  by (auto simp: processedFile_def compressImage_def split: canvas_outcome.splits option.splits)

lemma processedFile_smaller:
  "processedFile h file \<noteq> file \<Longrightarrow> fsize (processedFile h file) < fsize file"
  using processedFile_cases[of h "file"] by (auto simp: fsize_def)

lemma processedFile_spec: "content (processedFile h file) = spec_stored_bytes h file"
  by (auto simp: processedFile_def compressImage_def spec_stored_bytes_def fsize_def
           split: canvas_outcome.splits option.splits)

lemma processedFile_changed_iff:
  "(processedFile h file \<noteq> file) = (spec_stored_bytes h file \<noteq> content file)"
proof (cases "processedFile h file = file")
  case True
  then show ?thesis using processedFile_spec[of h "file"] by simp
next
  case False
  from processedFile_smaller[OF this] have "content (processedFile h file) \<noteq> content file"
    by (auto simp: fsize_def)
  with False show ?thesis by (simp add: processedFile_spec)
qed

lemma storeFile_backend:
  assumes "storeFile bs h w username file category metadata = (Resolved r, w')"
  shows "\<exists>b rest. selectBackendForFile bs (processedFile h file) = Some b \<and> bs = b # rest
           \<and> backend_storeFile b h w username (processedFile h file) category
                (metadata\<lparr>md_originalSize := Some (fsize file),
                           md_compressed := Some (processedFile h file \<noteq> file),
                           md_directory := Some (determineDirectory category metadata)\<rparr>)
              = (Resolved r, w')"
proof -
  from assms obtain b where
    "selectBackendForFile bs (processedFile h file) = Some b"
    "backend_storeFile b h w username (processedFile h file) category
       (metadata\<lparr>md_originalSize := Some (fsize file),
                  md_compressed := Some (processedFile h file \<noteq> file),
                  md_directory := Some (determineDirectory category metadata)\<rparr>)
     = (Resolved r, w')"
    by (auto simp: storeFile_def Let_def split: option.splits)
  then show ?thesis using selectBackendForFile_Some by blast
qed

lemma store_then_fetch:
  assumes store: "storeFile bs h w username file category metadata = (Resolved r, w')"
    and nofail: "\<not> h_idb_request_fails h'"
    and fresh: "selectBackendForFile bs (processedFile h file) = Some LocalStorageBackend \<longrightarrow>
                (\<forall>rec\<in>set (userFilesOf (w_ls w) username). r_id rec \<noteq> ls_generateFileId h)"
  shows "\<exists>g md'. getFile bs h' w' (sf_id r) = Resolved g
           \<and> b_bytes (g_blob g) = content (processedFile h file)
           \<and> fetched_metadata g = Some md'
           \<and> md_originalSize md' = Some (fsize file)
           \<and> md_compressed md' = Some (processedFile h file \<noteq> file)"
proof -
  let ?p = "processedFile h file"
  let ?md = "metadata\<lparr>md_originalSize := Some (fsize file),
                       md_compressed := Some (?p \<noteq> file),
                       md_directory := Some (determineDirectory category metadata)\<rparr>"
  from storeFile_backend[OF store] obtain b rest where
    sel: "selectBackendForFile bs ?p = Some b" and l: "bs = b # rest"
    and bs: "backend_storeFile b h w username ?p category ?md = (Resolved r, w')"
    by blast
  show ?thesis
  proof (cases b)
    case IndexedDBBackend
    with bs obtain db' where
      s: "idb_storeFile h (w_idb w) username ?p category ?md = (Resolved r, db')"
      and w': "w' = w\<lparr>w_idb := db'\<rparr>"
      by (auto simp: backend_storeFile_def split: prod.splits)
    from idb_store_then_get[OF s nofail] obtain g where
      "idb_getFile h' db' (sf_id r) = Resolved g" "b_bytes (g_blob g) = content ?p"
      "g_spread g = Some (?md\<lparr>md_filename := Some (name ?p), md_size := Some (fsize ?p),
                               md_filetype := Some (ftype ?p)\<rparr>)"
      by blast
    then show ?thesis
      using l IndexedDBBackend w'
      by (simp add: backend_getFile_def fetched_metadata_def)
  next
    case LocalStorageBackend
    with bs obtain ls' where
      s: "ls_storeFile h (w_ls w) username ?p category ?md = (Resolved r, ls')"
      and w': "w' = w\<lparr>w_ls := ls'\<rparr>"
      by (auto simp: backend_storeFile_def split: prod.splits)
    from fresh sel LocalStorageBackend
    have "\<forall>rec\<in>set (userFilesOf (w_ls w) username). r_id rec \<noteq> ls_generateFileId h" by simp
    from ls_store_then_get[OF s this] obtain g where
      "ls_getFile ls' (sf_id r) = Resolved g" "b_bytes (g_blob g) = content ?p"
      "g_spread g = None"
      "g_metadata g = Some (Own (?md\<lparr>md_filename := Some (name ?p), md_size := Some (fsize ?p),
                                    md_filetype := Some (ftype ?p)\<rparr>))"
      by blast
    then show ?thesis
      using l LocalStorageBackend w'
      by (simp add: backend_getFile_def fetched_metadata_def)
  qed
qed

text \<open>
  C1, as stated, fails for the localStorage backend, which never checks that a
  generated id is new. \<open>other_file\<close> (3 bytes) is stored for \<^verbatim>\<open>alice\<close> after
  \<open>small_file\<close> (2 bytes), the clock reading and the random suffix being the same
  both times: both stores resolve with the same id, and fetching that id returns the
  bytes and the \<^verbatim>\<open>originalSize\<close> of the first file, not of the file just stored.
\<close>

theorem storeFile_getFile_id_collision_counterexample:
  "map_option sf_id (resolved (fst (storeFile [LocalStorageBackend] host0 empty_world ''alice''
       small_file ''DOCUMENT_TXT'' no_metadata))) = Some ''ls_1700000000000_k3j9x2m1q''
   \<and> map_option sf_id (resolved (fst (storeFile [LocalStorageBackend] host0 world_one ''alice''
       other_file ''DOCUMENT_TXT'' no_metadata))) = Some ''ls_1700000000000_k3j9x2m1q''
   \<and> content other_file = [98, 121, 101]
   \<and> map_option g_blob (resolved (getFile [LocalStorageBackend] host0 world_two
         ''ls_1700000000000_k3j9x2m1q''))
       = Some \<lparr>b_bytes = [104, 105], b_type = ''text/plain''\<rparr>
   \<and> Option.bind (Option.bind (resolved (getFile [LocalStorageBackend] host0 world_two
         ''ls_1700000000000_k3j9x2m1q'')) fetched_metadata) md_originalSize = Some 2"
  by (simp add: world_two_def world_one_def storeFile_def processedFile_def small_file_def
        other_file_def selectBackendForFile_def at_index_def backend_storeFile_def
        ls_storeFile_def saveToLocalStorage_def ls_generateFileId_def maxFileSize_def fsize_def
        host0_def empty_world_def no_metadata_def Let_def backend_getFile_def ls_getFile_def
        fileToBase64_def data_blob_def fetched_metadata_def determineDirectory_def)

text \<open>
  C1, amended: the round trip holds when the fetch's IndexedDB request does not fail
  and, where the localStorage backend is the one selected, the generated id is not
  yet the id of one of the user's records there (the IndexedDB backend needs no such
  condition: its store fails on a taken id). Then a file stored through the manager
  and fetched under the id the store returned comes back with the bytes that were
  stored: the bytes of the file given to \<^verbatim>\<open>storeFile\<close> when no compression was applied
  (the record's \<^verbatim>\<open>compressed\<close> is false), the bytes the canvas produced, strictly
  fewer than the original, when it was (\<^verbatim>\<open>compressed\<close> is true). In both cases
  \<^verbatim>\<open>originalSize\<close> in the record's metadata is the size of the file given to
  \<^verbatim>\<open>storeFile\<close>.
\<close>

theorem storeFile_getFile_roundtrip:
  assumes "storeFile bs h w username file category metadata = (Resolved r, w')"
    and "\<not> h_idb_request_fails h'"
    and "selectBackendForFile bs (processedFile h file) = Some LocalStorageBackend \<longrightarrow>
         (\<forall>rec\<in>set (userFilesOf (w_ls w) username). r_id rec \<noteq> ls_generateFileId h)"
  shows "\<exists>g md'. getFile bs h' w' (sf_id r) = Resolved g
           \<and> fetched_metadata g = Some md'
           \<and> md_originalSize md' = Some (fsize file)
           \<and> md_compressed md' = Some (processedFile h file \<noteq> file)
           \<and> b_bytes (g_blob g) = content (processedFile h file)
           \<and> (if md_compressed md' = Some True
               then h_canvas h = ToBlob (Some (b_bytes (g_blob g)))
                    \<and> length (b_bytes (g_blob g)) < fsize file
               else md_compressed md' = Some False \<and> b_bytes (g_blob g) = content file)"
proof -
  from store_then_fetch[OF assms] obtain g md' where
    g: "getFile bs h' w' (sf_id r) = Resolved g"
       "b_bytes (g_blob g) = content (processedFile h file)"
       "fetched_metadata g = Some md'"
       "md_originalSize md' = Some (fsize file)"
       "md_compressed md' = Some (processedFile h file \<noteq> file)"
    by blast
  show ?thesis
  proof (cases "processedFile h file = file")
    case True
    with g show ?thesis by simp
  next
    case False
    with processedFile_cases[of h "file"] obtain blob where
      "h_canvas h = ToBlob (Some blob)" "length blob < fsize file"
      "processedFile h file = \<lparr>name = name file, ftype = ''image/jpeg'', content = blob\<rparr>"
      by blast
    with g False show ?thesis by simp
  qed
qed

lemma photo_processed:
  "processedFile host_jpeg photo
     = \<lparr>name = ''photo.png'', ftype = ''image/jpeg'', content = [255, 216, 255]\<rparr>"
  by (simp add: processedFile_def compressImage_def photo_def host_jpeg_def host0_def fsize_def)

lemma photo_changed: "processedFile host_jpeg photo \<noteq> photo"
  unfolding photo_processed by (simp add: photo_def)

lemma photo_store_resolves:
  "\<exists>r w'. storeFile [IndexedDBBackend, LocalStorageBackend] host_jpeg empty_world ''alice''
              photo ''MEDIA_IMAGE'' no_metadata = (Resolved r, w')"
  unfolding storeFile_def photo_processed Let_def
  by (simp add: selectBackendForFile_def at_index_def backend_storeFile_def
        idb_storeFile_def store_add_def host_jpeg_def host0_def empty_world_def Let_def)

lemma small_store_resolves:
  "\<exists>r w'. storeFile [LocalStorageBackend] host0 empty_world ''alice'' small_file
              ''DOCUMENT_TXT'' no_metadata = (Resolved r, w')"
  by (simp add: storeFile_def processedFile_def small_file_def selectBackendForFile_def
        at_index_def backend_storeFile_def ls_storeFile_def saveToLocalStorage_def
        maxFileSize_def fsize_def host0_def Let_def)

lemma small_unchanged: "processedFile host0 small_file = small_file"
  by (simp add: processedFile_def small_file_def)

theorem storeFile_getFile_roundtrip_witness:
  "(\<exists>r w'. storeFile [IndexedDBBackend, LocalStorageBackend] host_jpeg empty_world ''alice''
              photo ''MEDIA_IMAGE'' no_metadata = (Resolved r, w')
     \<and> \<not> h_idb_request_fails host0
     \<and> selectBackendForFile [IndexedDBBackend, LocalStorageBackend]
           (processedFile host_jpeg photo) \<noteq> Some LocalStorageBackend
     \<and> (\<exists>g md'. getFile [IndexedDBBackend, LocalStorageBackend] host0 w' (sf_id r) = Resolved g
           \<and> fetched_metadata g = Some md'
           \<and> md_originalSize md' = Some (fsize photo)
           \<and> md_compressed md' = Some True
           \<and> b_bytes (g_blob g) = [255, 216, 255]))
   \<and> (\<exists>r w'. storeFile [LocalStorageBackend] host0 empty_world ''alice'' small_file
              ''DOCUMENT_TXT'' no_metadata = (Resolved r, w')
     \<and> selectBackendForFile [LocalStorageBackend] (processedFile host0 small_file)
           = Some LocalStorageBackend
     \<and> userFilesOf (w_ls empty_world) ''alice'' = []
     \<and> (\<exists>g md'. getFile [LocalStorageBackend] host0 w' (sf_id r) = Resolved g
           \<and> fetched_metadata g = Some md'
           \<and> md_originalSize md' = Some (fsize small_file)
           \<and> md_compressed md' = Some False
           \<and> b_bytes (g_blob g) = content small_file))"
proof -
  have nf: "\<not> h_idb_request_fails host0" by (simp add: host0_def)
  have sel1: "selectBackendForFile [IndexedDBBackend, LocalStorageBackend]
               (processedFile host_jpeg photo) \<noteq> Some LocalStorageBackend"
    by (simp add: selectBackendForFile_def at_index_def)
  from photo_store_resolves obtain r1 w1 where
    st1: "storeFile [IndexedDBBackend, LocalStorageBackend] host_jpeg empty_world ''alice''
              photo ''MEDIA_IMAGE'' no_metadata = (Resolved r1, w1)" by blast
  from storeFile_getFile_roundtrip[OF st1 nf] sel1 obtain g1 m1 where
    g1: "getFile [IndexedDBBackend, LocalStorageBackend] host0 w1 (sf_id r1) = Resolved g1"
        "fetched_metadata g1 = Some m1"
        "md_originalSize m1 = Some (fsize photo)"
        "md_compressed m1 = Some (processedFile host_jpeg photo \<noteq> photo)"
        "b_bytes (g_blob g1) = content (processedFile host_jpeg photo)"
    by auto
  from g1(4) photo_changed have c1: "md_compressed m1 = Some True" by simp
  from g1(5) have b1: "b_bytes (g_blob g1) = [255, 216, 255]" by (simp add: photo_processed)
  have first: "\<exists>r w'. storeFile [IndexedDBBackend, LocalStorageBackend] host_jpeg empty_world
              ''alice'' photo ''MEDIA_IMAGE'' no_metadata = (Resolved r, w')
     \<and> \<not> h_idb_request_fails host0
     \<and> selectBackendForFile [IndexedDBBackend, LocalStorageBackend]
           (processedFile host_jpeg photo) \<noteq> Some LocalStorageBackend
     \<and> (\<exists>g md'. getFile [IndexedDBBackend, LocalStorageBackend] host0 w' (sf_id r) = Resolved g
           \<and> fetched_metadata g = Some md'
           \<and> md_originalSize md' = Some (fsize photo)
           \<and> md_compressed md' = Some True
           \<and> b_bytes (g_blob g) = [255, 216, 255])"
    using st1 nf sel1 g1(1,2,3) c1 b1 by blast
  have sel2: "selectBackendForFile [LocalStorageBackend] (processedFile host0 small_file)
                = Some LocalStorageBackend"
    by (simp add: selectBackendForFile_def at_index_def)
  have empty: "userFilesOf (w_ls empty_world) ''alice'' = []"
    by (simp add: userFilesOf_def empty_world_def)
  then have fr: "\<forall>rec\<in>set (userFilesOf (w_ls empty_world) ''alice'').
              r_id rec \<noteq> ls_generateFileId host0" by simp
  from small_store_resolves obtain r2 w2 where
    st2: "storeFile [LocalStorageBackend] host0 empty_world ''alice'' small_file
              ''DOCUMENT_TXT'' no_metadata = (Resolved r2, w2)" by blast
  from storeFile_getFile_roundtrip[OF st2 nf] fr obtain g2 m2 where
    g2: "getFile [LocalStorageBackend] host0 w2 (sf_id r2) = Resolved g2"
        "fetched_metadata g2 = Some m2"
        "md_originalSize m2 = Some (fsize small_file)"
        "md_compressed m2 = Some (processedFile host0 small_file \<noteq> small_file)"
        "b_bytes (g_blob g2) = content (processedFile host0 small_file)"
    by auto
  from g2(4) have c2: "md_compressed m2 = Some False" by (simp add: small_unchanged)
  from g2(5) have b2: "b_bytes (g_blob g2) = content small_file" by (simp add: small_unchanged)
  have second: "\<exists>r w'. storeFile [LocalStorageBackend] host0 empty_world ''alice'' small_file
              ''DOCUMENT_TXT'' no_metadata = (Resolved r, w')
     \<and> selectBackendForFile [LocalStorageBackend] (processedFile host0 small_file)
           = Some LocalStorageBackend
     \<and> userFilesOf (w_ls empty_world) ''alice'' = []
     \<and> (\<exists>g md'. getFile [LocalStorageBackend] host0 w' (sf_id r) = Resolved g
           \<and> fetched_metadata g = Some md'
           \<and> md_originalSize md' = Some (fsize small_file)
           \<and> md_compressed md' = Some False
           \<and> b_bytes (g_blob g) = content small_file)"
    using st2 sel2 empty g2(1,2,3) c2 b2 by blast
  from first second show ?thesis by (rule conjI)
qed

subsection \<open>Compression before storing\<close>

lemma filter_key_fresh:
  "key r \<notin> key ` set rs \<Longrightarrow> filter (\<lambda>x. key x = key r) rs = []"
  by (induction rs) auto

lemma filter_insort_key_fresh:
  "key r = k \<Longrightarrow> k \<notin> key ` set rs \<Longrightarrow>
   filter (\<lambda>x. key x = k) (insort_key key r rs) = [r]"
  using filter_key_fresh[of key r rs] by (induction rs) auto

lemma idb_storeFile_stored:
  assumes "idb_storeFile h db username file category metadata = (Resolved r, db')"
  shows "map f_data (filter (\<lambda>x. f_id x = sf_id r) (files_store db')) = [content file]
       \<and> sf_size r = fsize file \<and> sf_metadata r = metadata"
  using assms
  by (auto simp: idb_storeFile_def store_add_def Let_def filter_insort_key_fresh
           split: if_splits)

lemma ls_storeFile_stored:
  assumes "ls_storeFile h ls username file category metadata = (Resolved r, ls')"
  shows "(\<exists>earlier. map (\<lambda>x. payload_bytes (r_data x))
                      (filter (\<lambda>x. r_id x = sf_id r) (userFilesOf ls' username))
                  = earlier @ [content file])
       \<and> sf_size r = fsize file
       \<and> md_originalSize (sf_metadata r) = md_originalSize metadata
       \<and> md_compressed (sf_metadata r) = md_compressed metadata"
  using assms
  by (auto simp: ls_storeFile_def saveToLocalStorage_def Let_def userFilesOf_def
        fileToBase64_def payload_bytes_def
        split: if_splits ls_fault.splits option.splits)

lemma storeFile_stored:
  assumes store: "storeFile bs h w username file category metadata = (Resolved r, w')"
  shows "\<exists>b. selectBackendForFile bs (processedFile h file) = Some b
           \<and> (\<exists>earlier. stored_bytes b w' username (sf_id r)
                          = earlier @ [content (processedFile h file)])
           \<and> (b = IndexedDBBackend \<longrightarrow>
                stored_bytes b w' username (sf_id r) = [content (processedFile h file)])
           \<and> sf_size r = fsize (processedFile h file)
           \<and> md_originalSize (sf_metadata r) = Some (fsize file)
           \<and> md_compressed (sf_metadata r) = Some (processedFile h file \<noteq> file)"
proof -
  let ?p = "processedFile h file"
  let ?md = "metadata\<lparr>md_originalSize := Some (fsize file),
                       md_compressed := Some (?p \<noteq> file),
                       md_directory := Some (determineDirectory category metadata)\<rparr>"
  from storeFile_backend[OF store] obtain b rest where
    sel: "selectBackendForFile bs ?p = Some b"
    and bs: "backend_storeFile b h w username ?p category ?md = (Resolved r, w')"
    by blast
  show ?thesis
  proof (cases b)
    case IndexedDBBackend
    with bs obtain db' where
      s: "idb_storeFile h (w_idb w) username ?p category ?md = (Resolved r, db')"
      and w': "w' = w\<lparr>w_idb := db'\<rparr>"
      by (auto simp: backend_storeFile_def split: prod.splits)
    from idb_storeFile_stored[OF s] sel IndexedDBBackend w' show ?thesis
      by (simp add: stored_bytes_def)
  next
    case LocalStorageBackend
    with bs obtain ls' where
      s: "ls_storeFile h (w_ls w) username ?p category ?md = (Resolved r, ls')"
      and w': "w' = w\<lparr>w_ls := ls'\<rparr>"
      by (auto simp: backend_storeFile_def split: prod.splits)
    from ls_storeFile_stored[OF s] sel LocalStorageBackend w' show ?thesis
      by (simp add: stored_bytes_def)
  qed
qed

text \<open>
  C8: the bytes \<^verbatim>\<open>storeFile\<close> hands to the backend, its variable \<^verbatim>\<open>processedFile\<close>,
  are what the rule of the specification prescribes: for an image over 500 KiB the
  output of the compressor when that is strictly smaller than the original, and the
  original bytes in every other case (not an image, an image of at most 500 KiB, no
  output, a failed load, an output that is not strictly smaller); the file differs
  from the original only after a compression that made it smaller. When the store
  resolves, these bytes are the payload written last under the returned id in the
  selected backend (the only one there for IndexedDB), the returned size is their
  length, and the returned metadata records the original size and whether the bytes
  were replaced.
\<close>

theorem storeFile_compresses_large_images_only:
  "content (processedFile h file) = spec_stored_bytes h file
   \<and> (processedFile h file \<noteq> file \<longrightarrow>
        startsWith (ftype file) ''image/'' \<and> 500 * 1024 < fsize file
        \<and> fsize (processedFile h file) < fsize file)
   \<and> (storeFile bs h w username file category metadata = (Resolved r, w') \<longrightarrow>
        (\<exists>b. selectBackendForFile bs (processedFile h file) = Some b
           \<and> stored_bytes b w' username (sf_id r) \<noteq> []
           \<and> last (stored_bytes b w' username (sf_id r)) = spec_stored_bytes h file
           \<and> (b = IndexedDBBackend \<longrightarrow>
                stored_bytes b w' username (sf_id r) = [spec_stored_bytes h file])
           \<and> sf_size r = length (spec_stored_bytes h file)
           \<and> md_originalSize (sf_metadata r) = Some (fsize file)
           \<and> md_compressed (sf_metadata r) = Some (spec_stored_bytes h file \<noteq> content file)))"
proof (intro conjI impI)
  show "content (processedFile h file) = spec_stored_bytes h file"
    by (rule processedFile_spec)
next
  assume "processedFile h file \<noteq> file"
  then show "startsWith (ftype file) ''image/''" "500 * 1024 < fsize file"
    "fsize (processedFile h file) < fsize file"
    using processedFile_cases[of h "file"] processedFile_smaller[of h "file"] by auto
next
  assume "storeFile bs h w username file category metadata = (Resolved r, w')"
  from storeFile_stored[OF this] obtain b earlier where
    "selectBackendForFile bs (processedFile h file) = Some b"
    "stored_bytes b w' username (sf_id r) = earlier @ [content (processedFile h file)]"
    "b = IndexedDBBackend \<longrightarrow>
       stored_bytes b w' username (sf_id r) = [content (processedFile h file)]"
    "sf_size r = fsize (processedFile h file)"
    "md_originalSize (sf_metadata r) = Some (fsize file)"
    "md_compressed (sf_metadata r) = Some (processedFile h file \<noteq> file)"
    by blast
  then show "\<exists>b. selectBackendForFile bs (processedFile h file) = Some b
           \<and> stored_bytes b w' username (sf_id r) \<noteq> []
           \<and> last (stored_bytes b w' username (sf_id r)) = spec_stored_bytes h file
           \<and> (b = IndexedDBBackend \<longrightarrow>
                stored_bytes b w' username (sf_id r) = [spec_stored_bytes h file])
           \<and> sf_size r = length (spec_stored_bytes h file)
           \<and> md_originalSize (sf_metadata r) = Some (fsize file)
           \<and> md_compressed (sf_metadata r) = Some (spec_stored_bytes h file \<noteq> content file)"
    using processedFile_spec[of h "file"] processedFile_changed_iff[of h "file"]
    by (simp add: fsize_def)
qed

theorem storeFile_compresses_large_images_only_witness:
  "(\<exists>r w'. storeFile [IndexedDBBackend, LocalStorageBackend] host_jpeg empty_world ''alice'' photo
              ''MEDIA_IMAGE'' no_metadata = (Resolved r, w')
     \<and> processedFile host_jpeg photo \<noteq> photo
     \<and> spec_stored_bytes host_jpeg photo = [255, 216, 255]
     \<and> stored_bytes IndexedDBBackend w' ''alice'' (sf_id r) = [[255, 216, 255]]
     \<and> sf_size r = 3
     \<and> md_originalSize (sf_metadata r) = Some (fsize photo)
     \<and> md_compressed (sf_metadata r) = Some True)
   \<and> (\<exists>r w'. storeFile [LocalStorageBackend] host0 empty_world ''alice'' small_file
              ''DOCUMENT_TXT'' no_metadata = (Resolved r, w')
     \<and> last (stored_bytes LocalStorageBackend w' ''alice'' (sf_id r)) = content small_file
     \<and> md_compressed (sf_metadata r) = Some False)"
proof -
  have sp: "spec_stored_bytes host_jpeg photo = [255, 216, 255]"
    by (simp add: spec_stored_bytes_def photo_def host_jpeg_def host0_def)
  have ne: "spec_stored_bytes host_jpeg photo \<noteq> content photo"
  proof
    assume "spec_stored_bytes host_jpeg photo = content photo"
    then have "length (spec_stored_bytes host_jpeg photo) = length (content photo)" by simp
    then show False unfolding sp by (simp add: photo_def)
  qed
  have sel1: "selectBackendForFile [IndexedDBBackend, LocalStorageBackend]
               (processedFile host_jpeg photo) = Some IndexedDBBackend"
    by (simp add: selectBackendForFile_def at_index_def)
  from photo_store_resolves obtain r1 w1 where
    st1: "storeFile [IndexedDBBackend, LocalStorageBackend] host_jpeg empty_world ''alice''
              photo ''MEDIA_IMAGE'' no_metadata = (Resolved r1, w1)" by blast
  from storeFile_compresses_large_images_only
         [of host_jpeg photo "[IndexedDBBackend, LocalStorageBackend]" empty_world
             "''alice''" "''MEDIA_IMAGE''" no_metadata r1 w1]
       st1 sel1 sp ne
  have "stored_bytes IndexedDBBackend w1 ''alice'' (sf_id r1) = [[255, 216, 255]]
        \<and> sf_size r1 = 3
        \<and> md_originalSize (sf_metadata r1) = Some (fsize photo)
        \<and> md_compressed (sf_metadata r1) = Some True"
    by auto
  with st1 photo_changed sp
  have first: "\<exists>r w'. storeFile [IndexedDBBackend, LocalStorageBackend] host_jpeg empty_world
              ''alice'' photo ''MEDIA_IMAGE'' no_metadata = (Resolved r, w')
     \<and> processedFile host_jpeg photo \<noteq> photo
     \<and> spec_stored_bytes host_jpeg photo = [255, 216, 255]
     \<and> stored_bytes IndexedDBBackend w' ''alice'' (sf_id r) = [[255, 216, 255]]
     \<and> sf_size r = 3
     \<and> md_originalSize (sf_metadata r) = Some (fsize photo)
     \<and> md_compressed (sf_metadata r) = Some True"
    by blast
  have sp2: "spec_stored_bytes host0 small_file = content small_file"
    by (simp add: spec_stored_bytes_def small_file_def)
  have sel2: "selectBackendForFile [LocalStorageBackend] (processedFile host0 small_file)
                = Some LocalStorageBackend"
    by (simp add: selectBackendForFile_def at_index_def)
  from small_store_resolves obtain r2 w2 where
    st2: "storeFile [LocalStorageBackend] host0 empty_world ''alice'' small_file
              ''DOCUMENT_TXT'' no_metadata = (Resolved r2, w2)" by blast
  from storeFile_compresses_large_images_only
         [of host0 small_file "[LocalStorageBackend]" empty_world
             "''alice''" "''DOCUMENT_TXT''" no_metadata r2 w2]
       st2 sel2 sp2
  have "last (stored_bytes LocalStorageBackend w2 ''alice'' (sf_id r2)) = content small_file
        \<and> md_compressed (sf_metadata r2) = Some False"
    by auto
  with st2 have second: "\<exists>r w'. storeFile [LocalStorageBackend] host0 empty_world ''alice''
              small_file ''DOCUMENT_TXT'' no_metadata = (Resolved r, w')
     \<and> last (stored_bytes LocalStorageBackend w' ''alice'' (sf_id r)) = content small_file
     \<and> md_compressed (sf_metadata r) = Some False"
    by blast
  from first second show ?thesis by (rule conjI)
qed

subsection \<open>Listing a user's files\<close>

lemma find_append_cong:
  "find P xs = find P ys \<Longrightarrow> find P (xs @ zs) = find P (ys @ zs)"
  by (simp add: find_append')

lemma addUnseen_inv:
  "seen = s_id ` set allFiles \<Longrightarrow> distinct (map s_id allFiles) \<Longrightarrow>
   fst (addUnseen fs (seen, allFiles)) = s_id ` set (snd (addUnseen fs (seen, allFiles)))
   \<and> distinct (map s_id (snd (addUnseen fs (seen, allFiles))))"
proof (induction fs arbitrary: seen allFiles)
  case Nil
  then show ?case by simp
next
  case (Cons f fs)
  show ?case
  proof (cases "s_id f \<in> seen")
    case True
    with Cons.IH[OF Cons.prems] show ?thesis by simp
  next
    case False
    with Cons.prems have a: "insert (s_id f) seen = s_id ` set (allFiles @ [f])"
      and b: "distinct (map s_id (allFiles @ [f]))" by auto
    from Cons.IH[OF a b] False show ?thesis by simp
  qed
qed

lemma addUnseen_find:
  "seen = s_id ` set allFiles \<Longrightarrow>
   find (\<lambda>f. s_id f = i) (snd (addUnseen fs (seen, allFiles)))
     = find (\<lambda>f. s_id f = i) (allFiles @ fs)"
proof (induction fs arbitrary: seen allFiles)
  case Nil
  then show ?case by simp
next
  case (Cons f fs)
  show ?case
  proof (cases "s_id f \<in> seen")
    case False
    with Cons.prems have "insert (s_id f) seen = s_id ` set (allFiles @ [f])" by auto
    from Cons.IH[OF this] False show ?thesis by simp
  next
    case True
    have "find (\<lambda>f. s_id f = i) (allFiles @ f # fs) = find (\<lambda>f. s_id f = i) (allFiles @ fs)"
    proof (cases "s_id f = i")
      case True
      with \<open>s_id f \<in> seen\<close> Cons.prems have "i \<in> s_id ` set allFiles" by simp
      then have "find (\<lambda>f. s_id f = i) allFiles \<noteq> None"
        by (auto simp: find_None_iff)
      then show ?thesis by (auto simp: find_append')
    next
      case False
      then show ?thesis by (simp add: find_append' split: option.splits)
    qed
    with Cons.IH[OF Cons.prems] True show ?thesis by simp
  qed
qed

lemma backend_getUserFiles_settles: "backend_getUserFiles b h w username \<noteq> Pending"
  by (cases b) (simp_all add: backend_getUserFiles_def idb_getUserFiles_def ls_getUserFiles_def)

lemma collectFiles_spec:
  "fst acc = s_id ` set (snd acc) \<Longrightarrow> distinct (map s_id (snd acc)) \<Longrightarrow>
   \<exists>seen allFiles. collectFiles bs h w username acc = Some (seen, allFiles)
     \<and> seen = s_id ` set allFiles \<and> distinct (map s_id allFiles)
     \<and> (\<forall>i. find (\<lambda>f. s_id f = i) allFiles
              = find (\<lambda>f. s_id f = i) (snd acc @ concat (map (backendFiles h w username) bs)))"
proof (induction bs arbitrary: acc)
  case Nil
  then show ?case by (cases acc) simp
next
  case (Cons b bs)
  obtain seen allFiles where acc: "acc = (seen, allFiles)" by (cases acc)
  with Cons.prems have inv: "seen = s_id ` set allFiles" "distinct (map s_id allFiles)" by simp_all
  show ?case
  proof (cases "backend_getUserFiles b h w username")
    case (Resolved fs)
    let ?acc' = "addUnseen fs (seen, allFiles)"
    from addUnseen_inv[OF inv] have
      "fst ?acc' = s_id ` set (snd ?acc')" "distinct (map s_id (snd ?acc'))" by simp_all
    from Cons.IH[OF this] obtain seen' allFiles' where
      r: "collectFiles bs h w username ?acc' = Some (seen', allFiles')"
         "seen' = s_id ` set allFiles'" "distinct (map s_id allFiles')"
         "\<forall>i. find (\<lambda>f. s_id f = i) allFiles'
              = find (\<lambda>f. s_id f = i) (snd ?acc' @ concat (map (backendFiles h w username) bs))"
      by blast
    have "\<forall>i. find (\<lambda>f. s_id f = i) (snd ?acc' @ concat (map (backendFiles h w username) bs))
            = find (\<lambda>f. s_id f = i) (allFiles @ fs @ concat (map (backendFiles h w username) bs))"
      using find_append_cong[OF addUnseen_find[OF inv(1), of _ fs]] by simp
    moreover have "backendFiles h w username b = fs"
      using Resolved by (simp add: backendFiles_def)
    ultimately show ?thesis using r Resolved acc by simp
  next
    case (Rejected e)
    then have "backendFiles h w username b = []" by (simp add: backendFiles_def)
    with Cons.IH[OF Cons.prems] Rejected acc show ?thesis by simp
  next
    case Pending
    then show ?thesis using backend_getUserFiles_settles by blast
  qed
qed

lemma getUserFiles_settles: "\<exists>files. getUserFiles bs h w username = Resolved files"
  using collectFiles_spec[of "({}, [])" bs h w username]
  by (auto simp: getUserFiles_def)

text \<open>
  C5: the list of \<^verbatim>\<open>getUserFiles\<close> has no two entries with the same id, and for every
  id the entry listed is the first one with that id in the backends' lists taken in
  the order of the backends: the entry of the earlier backend wins.
\<close>

theorem getUserFiles_distinct_ids_first_seen_wins:
  "\<exists>files. getUserFiles bs h w username = Resolved files
     \<and> distinct (map s_id files)
     \<and> (\<forall>fileId. find (\<lambda>f. s_id f = fileId) files
           = find (\<lambda>f. s_id f = fileId) (concat (map (backendFiles h w username) bs)))"
  using collectFiles_spec[of "({}, [])" bs h w username]
  by (auto simp: getUserFiles_def)

subsection \<open>Storage statistics\<close>

lemma foldl_sizes:
  "foldl (\<lambda>sum file. sum + s_size file) a files = a + sum_list (map s_size files)"
  by (induction files arbitrary: a) simp_all

lemma backend_getStats_settles: "backend_getStats b h w username \<noteq> Pending"
  by (cases b)
     (simp_all add: backend_getStats_def idb_getStats_def ls_getStats_def
        idb_getUserFiles_def ls_getUserFiles_def)

lemma collectStats_settles: "\<exists>stats. collectStats bs h w username acc = Some stats"
proof (induction bs arbitrary: acc)
  case Nil
  then show ?case by simp
next
  case (Cons b bs)
  then show ?case
    using backend_getStats_settles[of b h w username]
    by (cases "backend_getStats b h w username") simp_all
qed

lemma toFixed1_below_cap:
  "t < 2 ^ 30 \<Longrightarrow>
   toFixed1 (min ((of_nat t / (1024 * 1024 * 1024)) * 100) 100) = (int t * 2000 + 2 ^ 30) div 2 ^ 31"
proof -
  assume lt: "t < 2 ^ 30"
  have "(of_nat t / (1024 * 1024 * 1024)) * 100 < (100 :: rat)"
    using lt by (simp add: field_simps)
  then have m: "min ((of_nat t / (1024 * 1024 * 1024)) * 100) (100 :: rat)
             = (of_nat t / (1024 * 1024 * 1024)) * 100" by simp
  have "(of_nat t / (1024 * 1024 * 1024)) * 100 * 10 + 1 / 2
          = (of_int (int t * 2000 + 2 ^ 30) / of_int (2 ^ 31) :: rat)"
    by (simp add: field_simps)
  then show ?thesis
    unfolding toFixed1_def m by (simp only: floor_divide_of_int_eq)
qed

lemma toFixed1_at_cap:
  "2 ^ 30 \<le> t \<Longrightarrow> toFixed1 (min ((of_nat t / (1024 * 1024 * 1024)) * 100) 100) = 1000"
proof -
  assume ge: "2 ^ 30 \<le> t"
  have "(100 :: rat) \<le> (of_nat t / (1024 * 1024 * 1024)) * 100"
    using ge by (simp add: field_simps)
  then have m: "min ((of_nat t / (1024 * 1024 * 1024)) * 100) (100 :: rat) = 100" by simp
  have "(100 :: rat) * 10 + 1 / 2 = of_int 2001 / of_int 2" by simp
  then show ?thesis unfolding toFixed1_def m by (simp only: floor_divide_of_int_eq)
qed

lemma toFixed1_nearest: "\<bar>of_int (toFixed1 x) / 10 - x\<bar> \<le> 1 / 20"
proof -
  have "of_int (toFixed1 x) \<le> x * 10 + 1 / 2" "x * 10 + 1 / 2 < of_int (toFixed1 x) + 1"
    unfolding toFixed1_def by linarith+
  then show ?thesis by linarith
qed

lemma toFixed1_closed:
  "toFixed1 (min ((of_nat t / (1024 * 1024 * 1024)) * 100) 100)
     = (if 2 ^ 30 \<le> t then 1000 else (int t * 2000 + 2 ^ 30) div 2 ^ 31)"
  using toFixed1_below_cap[of t] toFixed1_at_cap[of t] by (simp add: not_le)

lemma getStorageStats_value:
  assumes "getUserFiles bs h w username = Resolved files"
  shows "\<exists>stats. getStorageStats bs h w username = Resolved stats
           \<and> ss_totalSize stats = sum_list (map s_size files)
           \<and> ss_usedPercentage stats
               = toFixed1 (min ((of_nat (sum_list (map s_size files)) / (1024 * 1024 * 1024)) * 100)
                               100)"
proof -
  from collectStats_settles obtain backendStats where
    "collectStats bs h w username [] = Some backendStats" by blast
  with assms show ?thesis by (simp add: getStorageStats_def Let_def foldl_sizes)
qed

lemma addUnseen_distinct:
  "distinct (map s_id (allFiles @ fs)) \<Longrightarrow> seen = s_id ` set allFiles \<Longrightarrow>
   snd (addUnseen fs (seen, allFiles)) = allFiles @ fs"
proof (induction fs arbitrary: seen allFiles)
  case Nil
  then show ?case by simp
next
  case (Cons f fs)
  from Cons.prems have new: "s_id f \<notin> seen" by auto
  from Cons.prems have "distinct (map s_id ((allFiles @ [f]) @ fs))"
    and "insert (s_id f) seen = s_id ` set (allFiles @ [f])" by auto
  from Cons.IH[OF this] new show ?case by simp
qed

lemma idb_summary_id: "map s_id (map idb_summary items) = map m_id items"
  by (simp add: idb_summary_def)

lemma idb_summary_size: "map s_size (map idb_summary items) = map listed_size items"
  by (simp add: idb_summary_def listed_size_def)

lemma getUserFiles_only_idb:
  assumes "\<not> h_idb_request_fails h"
    and "distinct (map m_id (metadata_store (w_idb w)))"
  shows "getUserFiles [IndexedDBBackend] h w username
           = Resolved (map idb_summary
                        (filter (\<lambda>item. m_username item = username) (metadata_store (w_idb w))))"
proof -
  let ?items = "filter (\<lambda>item. m_username item = username) (metadata_store (w_idb w))"
  from assms(2) have "distinct (map m_id ?items)" by (rule distinct_map_filter)
  then have "distinct (map s_id ([] @ map idb_summary ?items))"
    by (simp only: append_Nil idb_summary_id)
  from addUnseen_distinct[OF this, of "{}"]
  have "snd (addUnseen (map idb_summary ?items) ({}, [])) = map idb_summary ?items" by simp
  then obtain seen where
    "addUnseen (map idb_summary ?items) ({}, []) = (seen, map idb_summary ?items)"
    by (cases "addUnseen (map idb_summary ?items) ({}, [])") simp
  with assms(1) show ?thesis
    by (simp add: getUserFiles_def backend_getUserFiles_def idb_getUserFiles_def)
qed

lemma getUserFiles_empty_localStorage:
  assumes "userFilesOf (w_ls w) username = []"
  shows "getUserFiles [IndexedDBBackend, LocalStorageBackend] h w username
           = getUserFiles [IndexedDBBackend] h w username"
proof -
  have "backend_getUserFiles LocalStorageBackend h w username = Resolved []"
    using assms by (simp add: backend_getUserFiles_def ls_getUserFiles_def userFilesOf_def)
  then show ?thesis
    by (cases "backend_getUserFiles IndexedDBBackend h w username")
       (auto simp: getUserFiles_def split: prod.splits)
qed

lemma world_photo_metadata:
  "map listed_size (filter (\<lambda>item. m_username item = ''alice'')
                           (metadata_store (w_idb world_photo))) = [600 * 1024]
   \<and> map m_id (metadata_store (w_idb world_photo)) = [''idb_1700000000000_k3j9x2m1q'']
   \<and> map f_data (files_store (w_idb world_photo)) = [[255, 216, 255]]
   \<and> userFilesOf (w_ls world_photo) ''alice'' = []"
proof -
  have p: "processedFile host_jpeg photo600
             = \<lparr>name = ''photo.png'', ftype = ''image/jpeg'', content = [255, 216, 255]\<rparr>"
    by (simp add: processedFile_def compressImage_def photo600_def host_jpeg_def host0_def
          fsize_def)
  show ?thesis
    unfolding world_photo_def storeFile_def p Let_def
    by (simp add: selectBackendForFile_def at_index_def backend_storeFile_def
          idb_storeFile_def store_add_def host_jpeg_def host0_def empty_world_def Let_def
          listed_size_def analysed_metadata_def no_metadata_def userFilesOf_def
          idb_generateFileId_def fsize_def)
qed

text \<open>
  C10, as stated, fails in its numerator. A photo of 600 KiB is uploaded with an
  analysis that carries its size, and is stored compressed to 3 bytes; these 3 bytes
  are all that the backends hold for the user, yet \<^verbatim>\<open>getStorageStats\<close> reports a total
  of 614400 bytes and 0.1 percent, where 3 bytes of 1 GiB round to 0.0.
\<close>

theorem getStorageStats_counts_listed_sizes_counterexample:
  "map f_data (files_store (w_idb world_photo)) = [[255, 216, 255]]
   \<and> userFilesOf (w_ls world_photo) ''alice'' = []
   \<and> map_option ss_totalSize
        (resolved (getStorageStats [IndexedDBBackend, LocalStorageBackend] host0 world_photo
                     ''alice''))
       = Some (600 * 1024)
   \<and> map_option ss_usedPercentage
        (resolved (getStorageStats [IndexedDBBackend, LocalStorageBackend] host0 world_photo
                     ''alice''))
       = Some 1
   \<and> toFixed1 (min ((of_nat 3 / (1024 * 1024 * 1024)) * 100) 100) = 0"
proof -
  have nf: "\<not> h_idb_request_fails host0" by (simp add: host0_def)
  have d: "distinct (map m_id (metadata_store (w_idb world_photo)))"
    using world_photo_metadata by simp
  have l: "sum_list (map s_size (map idb_summary
             (filter (\<lambda>item. m_username item = ''alice'') (metadata_store (w_idb world_photo)))))
           = 600 * 1024"
    unfolding idb_summary_size using world_photo_metadata by simp
  have e: "userFilesOf (w_ls world_photo) ''alice'' = []"
    using world_photo_metadata by simp
  have "getUserFiles [IndexedDBBackend, LocalStorageBackend] host0 world_photo ''alice''
          = Resolved (map idb_summary
              (filter (\<lambda>item. m_username item = ''alice'') (metadata_store (w_idb world_photo))))"
    unfolding getUserFiles_empty_localStorage[OF e] by (rule getUserFiles_only_idb[OF nf d])
  from getStorageStats_value[OF this]
  obtain stats where
    s: "getStorageStats [IndexedDBBackend, LocalStorageBackend] host0 world_photo ''alice''
          = Resolved stats"
       "ss_totalSize stats = 600 * 1024"
       "ss_usedPercentage stats
          = toFixed1 (min ((of_nat (600 * 1024) / (1024 * 1024 * 1024)) * 100) 100)"
    unfolding l by blast
  have "toFixed1 (min ((of_nat (600 * 1024) / (1024 * 1024 * 1024)) * 100) 100) = 1"
    by (simp only: toFixed1_closed) simp
  moreover have "toFixed1 (min ((of_nat 3 / (1024 * 1024 * 1024)) * 100) 100) = 0"
    by (simp only: toFixed1_closed) simp
  ultimately show ?thesis using s world_photo_metadata by simp
qed

text \<open>
  C10, amended: \<^verbatim>\<open>getStorageStats\<close> always resolves, and its \<^verbatim>\<open>usedPercentage\<close> is its
  \<^verbatim>\<open>totalSize\<close> as a percentage of the constant \<open>2\<^sup>3\<^sup>0\<close> bytes, capped at 100 and
  rounded to the nearest tenth (in tenths: 1000 from 1 GiB on, and
  \<open>(2000 * total + 2\<^sup>3\<^sup>0) div 2\<^sup>3\<^sup>1\<close> below); no capacity of a backend and no host quota
  enters the value. The \<^verbatim>\<open>totalSize\<close> is the sum of the sizes that \<^verbatim>\<open>getUserFiles\<close>
  lists for the user, not of the bytes stored: for a manager with the IndexedDB
  backend alone, whose requests succeed and whose metadata store has one record per
  id, it is the sum over the user's metadata records of
  \<^verbatim>\<open>metadata.intelligentAnalysis.size || metadata.size || 0\<close>.
\<close>

theorem getStorageStats_usedPercentage:
  "(\<exists>files stats. getUserFiles bs h w username = Resolved files
     \<and> getStorageStats bs h w username = Resolved stats
     \<and> ss_totalSize stats = sum_list (map s_size files)
     \<and> ss_usedPercentage stats
         = (if 2 ^ 30 \<le> ss_totalSize stats then 1000
            else (int (ss_totalSize stats) * 2000 + 2 ^ 30) div 2 ^ 31)
     \<and> \<bar>of_int (ss_usedPercentage stats) / 10
          - min ((of_nat (ss_totalSize stats) / (1024 * 1024 * 1024)) * 100) (100 :: rat)\<bar> \<le> 1 / 20
     \<and> 0 \<le> ss_usedPercentage stats \<and> ss_usedPercentage stats \<le> 1000)
   \<and> (\<not> h_idb_request_fails h \<and> distinct (map m_id (metadata_store (w_idb w))) \<longrightarrow>
        (\<exists>stats. getStorageStats [IndexedDBBackend] h w username = Resolved stats
           \<and> ss_totalSize stats
               = sum_list (map listed_size
                    (filter (\<lambda>item. m_username item = username) (metadata_store (w_idb w))))))"
proof (intro conjI impI)
  from getUserFiles_settles obtain files where
    f: "getUserFiles bs h w username = Resolved files" by blast
  let ?t = "sum_list (map s_size files)"
  from getStorageStats_value[OF f] obtain stats where
    r: "getStorageStats bs h w username = Resolved stats"
       "ss_totalSize stats = ?t"
       "ss_usedPercentage stats = toFixed1 (min ((of_nat ?t / (1024 * 1024 * 1024)) * 100) 100)"
    by blast
  have v: "toFixed1 (min ((of_nat ?t / (1024 * 1024 * 1024)) * 100) 100)
             = (if 2 ^ 30 \<le> ?t then 1000 else (int ?t * 2000 + 2 ^ 30) div 2 ^ 31)"
    by (rule toFixed1_closed)
  have lo: "0 \<le> (int ?t * 2000 + 2 ^ 30) div 2 ^ 31"
    by (simp add: pos_imp_zdiv_nonneg_iff)
  have hi: "?t < 2 ^ 30 \<Longrightarrow> (int ?t * 2000 + 2 ^ 30) div 2 ^ 31 \<le> 1000"
  proof -
    assume "?t < 2 ^ 30"
    then have "int ?t * 2000 + 2 ^ 30 < 1001 * 2 ^ 31" by simp
    then have "(int ?t * 2000 + 2 ^ 30) div 2 ^ 31 < 1001"
      by (simp add: div_less_iff_less_mult)
    then show ?thesis by simp
  qed
  have b: "0 \<le> toFixed1 (min ((of_nat ?t / (1024 * 1024 * 1024)) * 100) 100)
         \<and> toFixed1 (min ((of_nat ?t / (1024 * 1024 * 1024)) * 100) 100) \<le> 1000"
    using v lo hi by (simp add: not_le split: if_splits)
  have n: "\<bar>of_int (toFixed1 (min ((of_nat ?t / (1024 * 1024 * 1024)) * 100) 100)) / 10
            - min ((of_nat ?t / (1024 * 1024 * 1024)) * 100) (100 :: rat)\<bar> \<le> 1 / 20"
    by (rule toFixed1_nearest)
  show "\<exists>files stats. getUserFiles bs h w username = Resolved files
     \<and> getStorageStats bs h w username = Resolved stats
     \<and> ss_totalSize stats = sum_list (map s_size files)
     \<and> ss_usedPercentage stats
         = (if 2 ^ 30 \<le> ss_totalSize stats then 1000
            else (int (ss_totalSize stats) * 2000 + 2 ^ 30) div 2 ^ 31)
     \<and> \<bar>of_int (ss_usedPercentage stats) / 10
          - min ((of_nat (ss_totalSize stats) / (1024 * 1024 * 1024)) * 100) (100 :: rat)\<bar> \<le> 1 / 20
     \<and> 0 \<le> ss_usedPercentage stats \<and> ss_usedPercentage stats \<le> 1000"
    using f r v b n by (intro exI[of _ files] exI[of _ stats]) simp
next
  assume "\<not> h_idb_request_fails h \<and> distinct (map m_id (metadata_store (w_idb w)))"
  then have "getUserFiles [IndexedDBBackend] h w username
           = Resolved (map idb_summary
                        (filter (\<lambda>item. m_username item = username) (metadata_store (w_idb w))))"
    using getUserFiles_only_idb by blast
  from getStorageStats_value[OF this]
  show "\<exists>stats. getStorageStats [IndexedDBBackend] h w username = Resolved stats
           \<and> ss_totalSize stats
               = sum_list (map listed_size
                    (filter (\<lambda>item. m_username item = username) (metadata_store (w_idb w))))"
    unfolding idb_summary_size by blast
qed

theorem getStorageStats_usedPercentage_witness:
  "\<not> h_idb_request_fails host0
   \<and> distinct (map m_id (metadata_store (w_idb world_photo)))
   \<and> (\<exists>stats. getStorageStats [IndexedDBBackend] host0 world_photo ''alice'' = Resolved stats
         \<and> ss_totalSize stats = 600 * 1024
         \<and> ss_usedPercentage stats = 1)"
proof -
  have nf: "\<not> h_idb_request_fails host0" by (simp add: host0_def)
  have d: "distinct (map m_id (metadata_store (w_idb world_photo)))"
    using world_photo_metadata by simp
  from getStorageStats_usedPercentage[of "[IndexedDBBackend]" host0 world_photo "''alice''"] nf d
  obtain stats where
    s: "getStorageStats [IndexedDBBackend] host0 world_photo ''alice'' = Resolved stats"
       "ss_usedPercentage stats
         = (if 2 ^ 30 \<le> ss_totalSize stats then 1000
            else (int (ss_totalSize stats) * 2000 + 2 ^ 30) div 2 ^ 31)"
       "ss_totalSize stats
          = sum_list (map listed_size
              (filter (\<lambda>item. m_username item = ''alice'') (metadata_store (w_idb world_photo))))"
    by auto
  from s(3) world_photo_metadata have t: "ss_totalSize stats = 600 * 1024" by simp
  with s(2) have "ss_usedPercentage stats = 1" by simp
  with nf d s(1) t show ?thesis by blast
qed

end
